theory Spec2Isabelle
  imports Main "HOL-Library.AList"
begin

section \<open>JavaScript values\<close>

text \<open>
  Tool arguments, request parameters, request bodies and backend payloads are untyped
  JSON-like values in the source (\<^verbatim>\<open>args: any\<close>).

  A number is carried by its canonical rendering, the string that \<^verbatim>\<open>String()\<close> gives
  for it (\<^verbatim>\<open>50\<close>, \<^verbatim>\<open>1.5\<close>, \<^verbatim>\<open>1e+21\<close>, \<^verbatim>\<open>NaN\<close>). The rendering determines the
  number up to the sign of zero, and the code below only tests numbers for truthiness,
  renders them and passes them on.

  A string is the list of its UTF-16 code units, for text whose code units are below 256.

  An object is an association list of its own properties in insertion order, with
  distinct keys. Properties are only ever read under the names the source writes, none
  of which an object, array or string inherits from its prototype.
\<close>

datatype jsval =
    JUndefined
  | JNull
  | JBool bool
  | JNum string
  | JStr string
  | JArr "jsval list"
  | JObj "(string \<times> jsval) list"

type_synonym obj = "(string \<times> jsval) list"

text \<open>
  The truthiness that \<^verbatim>\<open>!x\<close>, \<^verbatim>\<open>x || y\<close> and \<^verbatim>\<open>if (x)\<close> test. The falsy numbers
  are the two zeros, both rendered \<^verbatim>\<open>0\<close>, and \<^verbatim>\<open>NaN\<close>.
\<close>

fun truthy :: "jsval \<Rightarrow> bool" where
  "truthy JUndefined = False"
| "truthy JNull = False"
| "truthy (JBool b) = b"
| "truthy (JNum n) = (n \<noteq> ''0'' \<and> n \<noteq> ''NaN'')"
| "truthy (JStr s) = (s \<noteq> [])"
| "truthy (JArr xs) = True"
| "truthy (JObj kvs) = True"

text \<open>\<^verbatim>\<open>a || b\<close>\<close>

definition js_or :: "jsval \<Rightarrow> jsval \<Rightarrow> jsval" where
  "js_or a b = (if truthy a then a else b)"

text \<open>\<^verbatim>\<open>o.k\<close> on an object: a missing key reads as \<^verbatim>\<open>undefined\<close>.\<close>

definition get_prop :: "obj \<Rightarrow> string \<Rightarrow> jsval" where
  "get_prop ob k = (case map_of ob k of None \<Rightarrow> JUndefined | Some v \<Rightarrow> v)"

text \<open>\<^verbatim>\<open>'k' in o\<close>, for a key that is not inherited.\<close>

definition has_key :: "obj \<Rightarrow> string \<Rightarrow> bool" where
  "has_key ob k = (map_of ob k \<noteq> None)"

text \<open>\<^verbatim>\<open>o.k = v\<close> and \<^verbatim>\<open>{...o, k: v}\<close>: an existing key keeps its place.\<close>

definition set_prop :: "obj \<Rightarrow> string \<Rightarrow> jsval \<Rightarrow> obj" where
  "set_prop ob k v = AList.update k v ob"

text \<open>\<^verbatim>\<open>params?.k\<close> and \<^verbatim>\<open>{...params}\<close> for a parameter that may be \<^verbatim>\<open>undefined\<close>.\<close>

definition opt_prop :: "obj option \<Rightarrow> string \<Rightarrow> jsval" where
  "opt_prop ob k = (case ob of None \<Rightarrow> JUndefined | Some o' \<Rightarrow> get_prop o' k)"

definition spread :: "obj option \<Rightarrow> obj" where
  "spread ob = (case ob of None \<Rightarrow> [] | Some o' \<Rightarrow> o')"

text \<open>
  The rendering of a length or an index. A JavaScript array has fewer than \<open>2^32\<close>
  elements and a string fewer than \<open>2^53\<close> code units, and up to there the rendering
  of a whole number is its decimal notation.
\<close>

fun digit_str :: "nat \<Rightarrow> string" where
  "digit_str n =
     (if n < 10 then [''0123456789'' ! n]
      else digit_str (n div 10) @ [''0123456789'' ! (n mod 10)])"

declare digit_str.simps [simp del]

section \<open>Errors\<close>

record axios_response =
  resp_status :: int
  resp_data :: jsval

text \<open>
  The error axios hands to the response interceptor: \<^verbatim>\<open>error.response\<close> is set when
  the server answered outside 2xx, \<^verbatim>\<open>error.request\<close> when a request was made.
\<close>

record axios_error =
  err_message :: string
  err_response :: "axios_response option"
  err_request :: bool

datatype js_error =
    Error string
  | TypeError string
  | ApiError string int jsval
  | AxiosError axios_error

text \<open>\<^verbatim>\<open>error.message\<close>\<close>

fun error_message :: "js_error \<Rightarrow> string" where
  "error_message (Error m) = m"
| "error_message (TypeError m) = m"
| "error_message (ApiError m st d) = m"
| "error_message (AxiosError e) = err_message e"

text \<open>The first error of a sequence of evaluations, or all their values.\<close>

fun collect :: "(js_error + 'a) list \<Rightarrow> js_error + 'a list" where
  "collect [] = Inr []"
| "collect (x # xs) =
     (case x of
        Inl e \<Rightarrow> Inl e
      | Inr a \<Rightarrow> (case collect xs of Inl e \<Rightarrow> Inl e | Inr as \<Rightarrow> Inr (a # as)))"

section \<open>Conversion to string\<close>

text \<open>
  \<^verbatim>\<open>String(v)\<close>, which is also what a template literal applies to each substitution.
  An object without an own \<^verbatim>\<open>toString\<close> property renders through
  \<^verbatim>\<open>Object.prototype.toString\<close>. An own \<^verbatim>\<open>toString\<close> of a JSON-like object is
  never a function, and then neither it nor \<^verbatim>\<open>valueOf\<close> yields a primitive: the
  conversion throws a TypeError. An array joins the conversions of its elements with
  commas, \<^verbatim>\<open>null\<close> and \<^verbatim>\<open>undefined\<close> giving the empty string.
\<close>

definition not_primitive :: js_error where
  "not_primitive = TypeError ''Cannot convert object to primitive value''"

fun join_comma :: "string list \<Rightarrow> string" where
  "join_comma [] = []"
| "join_comma [s] = s"
| "join_comma (s # t # ss) = s @ '','' @ join_comma (t # ss)"

fun js_String :: "jsval \<Rightarrow> js_error + string" where
  "js_String JUndefined = Inr ''undefined''"
| "js_String JNull = Inr ''null''"
| "js_String (JBool b) = Inr (if b then ''true'' else ''false'')"
| "js_String (JNum n) = Inr n"
| "js_String (JStr s) = Inr s"
| "js_String (JArr xs) =
     (case collect (map (\<lambda>x. if x = JUndefined \<or> x = JNull then Inr [] else js_String x) xs) of
        Inl e \<Rightarrow> Inl e
      | Inr ss \<Rightarrow> Inr (join_comma ss))"
| "js_String (JObj kvs) =
     (if has_key kvs ''toString'' then Inl not_primitive else Inr ''[object Object]'')"

text \<open>
  A template literal: its parts are evaluated and converted from left to right, and the
  first error ends it. \<open>lit\<close> is a piece of text, \<open>subst\<close> a substitution
  \<^verbatim>\<open>${e}\<close> whose expression may itself have thrown.
\<close>

definition lit :: "string \<Rightarrow> js_error + string" where
  "lit s = Inr s"

definition subst :: "js_error + jsval \<Rightarrow> js_error + string" where
  "subst v = (case v of Inl e \<Rightarrow> Inl e | Inr x \<Rightarrow> js_String x)"

definition template :: "(js_error + string) list \<Rightarrow> js_error + string" where
  "template parts = (case collect parts of Inl e \<Rightarrow> Inl e | Inr ss \<Rightarrow> Inr (concat ss))"

section \<open>Property access\<close>

text \<open>
  \<^verbatim>\<open>v.k\<close> on an arbitrary value, as a handler reads a field of what the backend
  returned: reading a property of \<^verbatim>\<open>null\<close> or \<^verbatim>\<open>undefined\<close> throws a TypeError.
\<close>

definition sq :: string where
  "sq = [CHR 0x27]"

fun member :: "jsval \<Rightarrow> string \<Rightarrow> js_error + jsval" where
  "member JUndefined k =
     Inl (TypeError (''Cannot read properties of undefined (reading '' @ sq @ k @ sq @ '')''))"
| "member JNull k =
     Inl (TypeError (''Cannot read properties of null (reading '' @ sq @ k @ sq @ '')''))"
| "member (JObj kvs) k = Inr (get_prop kvs k)"
| "member (JArr xs) k = Inr (if k = ''length'' then JNum (digit_str (length xs)) else JUndefined)"
| "member (JStr s) k = Inr (if k = ''length'' then JNum (digit_str (length s)) else JUndefined)"
| "member (JBool b) k = Inr JUndefined"
| "member (JNum n) k = Inr JUndefined"

text \<open>\<^verbatim>\<open>v?.k\<close>\<close>

definition opt_member :: "jsval \<Rightarrow> string \<Rightarrow> jsval" where
  "opt_member v k = (case member v k of Inl e \<Rightarrow> JUndefined | Inr x \<Rightarrow> x)"

section \<open>Backend Client (api/client.ts)\<close>

datatype http_method = GET | POST | PUT | DELETE

record request =
  req_method :: http_method
  req_url :: string
  req_params :: "obj option"
  req_data :: "obj option"

text \<open>
  What one HTTP exchange of the underlying library comes to, before the interceptors:
  a response in the 2xx range, or an \<^verbatim>\<open>AxiosError\<close>.
\<close>

type_synonym raw_backend = "request \<Rightarrow> axios_error + axios_response"

text \<open>
  The client as the endpoint wrappers see it: a call resolves to the JSON body or
  rejects with an error.
\<close>

type_synonym backend = "request \<Rightarrow> js_error + jsval"

text \<open>The response interceptor's success handler: \<^verbatim>\<open>return response.data\<close>.\<close>

definition response_fulfilled :: "axios_response \<Rightarrow> jsval" where
  "response_fulfilled response = resp_data response"

text \<open>
  The response interceptor's error handler; the value is what the promise is rejected
  with (the error the handler builds, or the one \<^verbatim>\<open>String(responseData.message)\<close>
  throws).
\<close>

definition response_rejected :: "axios_error \<Rightarrow> js_error" where
  "response_rejected error =
     (case err_response error of
        Some response \<Rightarrow>
          (let responseData = resp_data response;
               errorMessage =
                 (case responseData of
                    JObj kvs \<Rightarrow>
                      if has_key kvs ''message'' then js_String (get_prop kvs ''message'')
                      else Inr (err_message error)
                  | _ \<Rightarrow> Inr (err_message error))
           in case errorMessage of
                Inl thrown \<Rightarrow> thrown
              | Inr m \<Rightarrow> ApiError m (resp_status response) responseData)
      | None \<Rightarrow>
          if err_request error then Error ''No response received from server''
          else AxiosError error)"

definition createApiClient :: "raw_backend \<Rightarrow> backend" where
  "createApiClient raw r =
     (case raw r of
        Inl error \<Rightarrow> Inl (response_rejected error)
      | Inr response \<Rightarrow> Inr (response_fulfilled response))"

text \<open>An awaited client call, together with the list of requests it sent.\<close>

definition call :: "backend \<Rightarrow> request \<Rightarrow> (js_error + jsval) \<times> request list" where
  "call wyndApi r = (wyndApi r, [r])"

definition api_get :: "backend \<Rightarrow> string \<Rightarrow> obj option \<Rightarrow> (js_error + jsval) \<times> request list" where
  "api_get wyndApi u ps =
     call wyndApi \<lparr>req_method = GET, req_url = u, req_params = ps, req_data = None\<rparr>"

definition api_post :: "backend \<Rightarrow> string \<Rightarrow> obj \<Rightarrow> (js_error + jsval) \<times> request list" where
  "api_post wyndApi u d =
     call wyndApi \<lparr>req_method = POST, req_url = u, req_params = None, req_data = Some d\<rparr>"

definition api_put :: "backend \<Rightarrow> string \<Rightarrow> obj \<Rightarrow> (js_error + jsval) \<times> request list" where
  "api_put wyndApi u d =
     call wyndApi \<lparr>req_method = PUT, req_url = u, req_params = None, req_data = Some d\<rparr>"

definition api_delete :: "backend \<Rightarrow> string \<Rightarrow> (js_error + jsval) \<times> request list" where
  "api_delete wyndApi u =
     call wyndApi \<lparr>req_method = DELETE, req_url = u, req_params = None, req_data = None\<rparr>"

section \<open>Configuration (config/index.ts)\<close>

text \<open>
  The parts of the configuration the code reads. \<open>api_timeout\<close> is a number
  (\<^verbatim>\<open>parseInt\<close> of the environment variable), carried by its rendering.
\<close>

record config =
  defaultProjectId :: string
  env :: string
  api_url :: string
  api_timeout :: string
  api_token :: string
  logLevel :: string


text \<open>\<^verbatim>\<open>config.project.defaultProjectId || null\<close>\<close>

definition getDefaultProjectId :: "config \<Rightarrow> string option" where
  "getDefaultProjectId cfg =
     (if defaultProjectId cfg = [] then None else Some (defaultProjectId cfg))"

section \<open>Endpoint wrappers (api/endpoints/index.ts)\<close>

type_synonym 'a io = "'a \<times> request list"


definition workspaces_get :: "backend \<Rightarrow> string \<Rightarrow> (js_error + jsval) io" where
  "workspaces_get wyndApi ident = api_get wyndApi (''/api/workspaces/'' @ ident) None"



definition projects_list :: "backend \<Rightarrow> obj option \<Rightarrow> (js_error + jsval) io" where
  "projects_list wyndApi params = api_get wyndApi ''/api/projects'' params"

definition projects_get :: "backend \<Rightarrow> string \<Rightarrow> (js_error + jsval) io" where
  "projects_get wyndApi ident = api_get wyndApi (''/api/projects/'' @ ident) None"

definition projects_getStats :: "backend \<Rightarrow> string \<Rightarrow> (js_error + jsval) io" where
  "projects_getStats wyndApi projectId =
     api_get wyndApi (''/api/projects/'' @ projectId @ ''/stats'') None"

text \<open>
  \<^verbatim>\<open>tasks.list\<close>: ``always filter by default project unless explicitly overridden'':
  \<^verbatim>\<open>{...params, project_id: params?.project_id || config.project.defaultProjectId}\<close>.
\<close>

definition tasks_list :: "config \<Rightarrow> backend \<Rightarrow> obj option \<Rightarrow> (js_error + jsval) io" where
  "tasks_list cfg wyndApi params =
     (let filteredParams =
            set_prop (spread params) ''project_id''
              (js_or (opt_prop params ''project_id'') (JStr (defaultProjectId cfg)))
      in api_get wyndApi ''/api/tasks'' (Some filteredParams))"

definition tasks_get :: "backend \<Rightarrow> string \<Rightarrow> (js_error + jsval) io" where
  "tasks_get wyndApi ident = api_get wyndApi (''/api/tasks/'' @ ident) None"

definition tasks_create :: "config \<Rightarrow> backend \<Rightarrow> obj \<Rightarrow> (js_error + jsval) io" where
  "tasks_create cfg wyndApi d =
     (let taskData =
            set_prop d ''project_id''
              (js_or (get_prop d ''project_id'') (JStr (defaultProjectId cfg)))
      in api_post wyndApi ''/api/tasks'' taskData)"

definition tasks_update :: "backend \<Rightarrow> string \<Rightarrow> obj \<Rightarrow> (js_error + jsval) io" where
  "tasks_update wyndApi ident d = api_put wyndApi (''/api/tasks/'' @ ident) d"

definition tasks_delete :: "backend \<Rightarrow> string \<Rightarrow> (js_error + jsval) io" where
  "tasks_delete wyndApi ident = api_delete wyndApi (''/api/tasks/'' @ ident)"

definition documents_list :: "config \<Rightarrow> backend \<Rightarrow> obj option \<Rightarrow> (js_error + jsval) io" where
  "documents_list cfg wyndApi params =
     (let filteredParams =
            set_prop (spread params) ''project_id''
              (js_or (opt_prop params ''project_id'') (JStr (defaultProjectId cfg)))
      in api_get wyndApi ''/api/documents'' (Some filteredParams))"

definition documents_get :: "backend \<Rightarrow> string \<Rightarrow> (js_error + jsval) io" where
  "documents_get wyndApi ident = api_get wyndApi (''/api/documents/'' @ ident) None"

definition documents_create :: "config \<Rightarrow> backend \<Rightarrow> obj \<Rightarrow> (js_error + jsval) io" where
  "documents_create cfg wyndApi d =
     (let documentData =
            set_prop d ''project_id''
              (js_or (get_prop d ''project_id'') (JStr (defaultProjectId cfg)))
      in api_post wyndApi ''/api/documents'' documentData)"



definition errors_get :: "backend \<Rightarrow> string \<Rightarrow> (js_error + jsval) io" where
  "errors_get wyndApi ident = api_get wyndApi (''/api/errors/'' @ ident) None"




definition prompts_get :: "backend \<Rightarrow> string \<Rightarrow> (js_error + jsval) io" where
  "prompts_get wyndApi ident = api_get wyndApi (''/api/prompts/'' @ ident) None"




text \<open>
  Modelled from the spec: the \<^verbatim>\<open>api.phases\<close> endpoint wrappers, which the phase tools
  and the phase resource call, are in a version of the endpoints file that is not among
  the sources. The spec lists phases among the plain CRUD paths of the backend, so they
  follow the unscoped wrappers above.
\<close>

definition phases_list :: "backend \<Rightarrow> obj option \<Rightarrow> (js_error + jsval) io" where
  "phases_list wyndApi params = api_get wyndApi ''/api/phases'' params"

definition phases_get :: "backend \<Rightarrow> string \<Rightarrow> (js_error + jsval) io" where
  "phases_get wyndApi ident = api_get wyndApi (''/api/phases/'' @ ident) None"

definition phases_create :: "backend \<Rightarrow> obj \<Rightarrow> (js_error + jsval) io" where
  "phases_create wyndApi d = api_post wyndApi ''/api/phases'' d"

definition phases_update :: "backend \<Rightarrow> string \<Rightarrow> obj \<Rightarrow> (js_error + jsval) io" where
  "phases_update wyndApi ident d = api_put wyndApi (''/api/phases/'' @ ident) d"

section \<open>Resource handlers (server/resources)\<close>

text \<open>\<^verbatim>\<open>uri.split('/').pop()\<close>: what follows the last slash.\<close>

definition last_segment :: "string \<Rightarrow> string" where
  "last_segment uri = rev (takeWhile (\<lambda>c. c \<noteq> CHR ''/'') (rev uri))"

text \<open>\<^verbatim>\<open>s.endsWith(t)\<close>\<close>

definition endsWith :: "string \<Rightarrow> string \<Rightarrow> bool" where
  "endsWith s t = (length t \<le> length s \<and> drop (length s - length t) s = t)"

text \<open>
  The tail every \<^verbatim>\<open>list\<close> shares: \<^verbatim>\<open>return response.data || []\<close> inside a
  \<^verbatim>\<open>try\<close> whose \<^verbatim>\<open>catch\<close> returns \<^verbatim>\<open>[]\<close>.
\<close>

definition data_or_empty :: "(js_error + jsval) io \<Rightarrow> jsval io" where
  "data_or_empty r =
     (case r of
        (Inl error, log) \<Rightarrow> (JArr [], log)
      | (Inr response, log) \<Rightarrow>
          (case member response ''data'' of
             Inl error \<Rightarrow> (JArr [], log)
           | Inr d \<Rightarrow> (js_or d (JArr []), log)))"

text \<open>The same with \<^verbatim>\<open>response?.data || []\<close>.\<close>

definition opt_data_or_empty :: "(js_error + jsval) io \<Rightarrow> jsval io" where
  "opt_data_or_empty r =
     (case r of
        (Inl error, log) \<Rightarrow> (JArr [], log)
      | (Inr response, log) \<Rightarrow> (js_or (opt_member response ''data'') (JArr []), log))"

text \<open>
  The body every \<^verbatim>\<open>read\<close> shares: take the id from the URI, throw when it is empty,
  return what the get-by-id endpoint resolves to; the \<^verbatim>\<open>catch\<close> returns \<^verbatim>\<open>null\<close>.
\<close>

definition read_by_id :: "(string \<Rightarrow> (js_error + jsval) io) \<Rightarrow> string \<Rightarrow> jsval io" where
  "read_by_id get_endpoint uri =
     (let ident = last_segment uri in
      if ident = [] then (JNull, [])
      else (case get_endpoint ident of
              (Inl error, log) \<Rightarrow> (JNull, log)
            | (Inr v, log) \<Rightarrow> (v, log)))"

subsection \<open>TaskResource\<close>

text \<open>
  \<^verbatim>\<open>list\<close> writes the default project id into the parameters whether or not the
  caller gave one, and \<^verbatim>\<open>status = 'in_progress'\<close> when the status is falsy. (The
  source assigns into the caller's object; the model returns what is passed on.)
\<close>

definition TaskResource_list :: "config \<Rightarrow> backend \<Rightarrow> obj option \<Rightarrow> jsval io" where
  "TaskResource_list cfg wyndApi params =
     (let params' =
            (case params of
               None \<Rightarrow>
                 [(''project_id'', JStr (defaultProjectId cfg)),
                  (''status'', JStr ''in_progress'')]
             | Some p \<Rightarrow>
                 (let p1 = set_prop p ''project_id'' (JStr (defaultProjectId cfg)) in
                  if \<not> truthy (get_prop p1 ''status'')
                  then set_prop p1 ''status'' (JStr ''in_progress'')
                  else p1))
      in data_or_empty (tasks_list cfg wyndApi (Some params')))"

definition TaskResource_read :: "backend \<Rightarrow> string \<Rightarrow> jsval io" where
  "TaskResource_read wyndApi uri = read_by_id (tasks_get wyndApi) uri"



subsection \<open>ProjectResource (read-only)\<close>


text \<open>
  \<^verbatim>\<open>read\<close> calls itself on \<^verbatim>\<open>wynd://projects/<default id>\<close> when the URI is
  \<^verbatim>\<open>default\<close> or ends in \<^verbatim>\<open>/default\<close>. The first argument is the depth of call stack
  left: a configured id that itself ends in \<^verbatim>\<open>/default\<close> makes the recursion run until
  the stack is exhausted, and that error is caught like every other one, giving
  \<^verbatim>\<open>null\<close>.
\<close>

fun ProjectResource_read :: "nat \<Rightarrow> config \<Rightarrow> backend \<Rightarrow> string \<Rightarrow> jsval io" where
  "ProjectResource_read 0 cfg wyndApi uri = (JNull, [])"
| "ProjectResource_read (Suc depth) cfg wyndApi uri =
     (if uri = ''default'' \<or> endsWith uri ''/default'' then
        (case getDefaultProjectId cfg of
           None \<Rightarrow> (JNull, [])
         | Some d \<Rightarrow> ProjectResource_read depth cfg wyndApi (''wynd://projects/'' @ d))
      else read_by_id (projects_get wyndApi) uri)"

definition ProjectResource_create :: "backend \<Rightarrow> obj \<Rightarrow> (js_error + jsval) io" where
  "ProjectResource_create wyndApi d =
     (Inl (Error ''Project creation is not supported - projects are read-only''), [])"

definition ProjectResource_update :: "backend \<Rightarrow> string \<Rightarrow> obj \<Rightarrow> (js_error + jsval) io" where
  "ProjectResource_update wyndApi uri d =
     (Inl (Error ''Project updates are not supported - projects are read-only''), [])"

definition ProjectResource_delete :: "backend \<Rightarrow> string \<Rightarrow> (js_error + unit) io" where
  "ProjectResource_delete wyndApi uri =
     (Inl (Error ''Project deletion is not supported - projects are read-only''), [])"


subsection \<open>DocumentResource\<close>


definition DocumentResource_read :: "backend \<Rightarrow> string \<Rightarrow> jsval io" where
  "DocumentResource_read wyndApi uri = read_by_id (documents_get wyndApi) uri"



subsection \<open>WorkspaceResource\<close>





definition WorkspaceResource_read :: "backend \<Rightarrow> string \<Rightarrow> jsval io" where
  "WorkspaceResource_read wyndApi uri = read_by_id (workspaces_get wyndApi) uri"



subsection \<open>PromptResource\<close>


definition PromptResource_read :: "backend \<Rightarrow> string \<Rightarrow> jsval io" where
  "PromptResource_read wyndApi uri = read_by_id (prompts_get wyndApi) uri"



subsection \<open>PhaseResource\<close>

definition PhaseResource_list :: "config \<Rightarrow> backend \<Rightarrow> obj option \<Rightarrow> jsval io" where
  "PhaseResource_list cfg wyndApi params =
     (let params' =
            (case params of
               None \<Rightarrow> [(''project_id'', JStr (defaultProjectId cfg))]
             | Some p \<Rightarrow> set_prop p ''project_id'' (JStr (defaultProjectId cfg)))
      in data_or_empty (phases_list wyndApi (Some params')))"

definition PhaseResource_read :: "backend \<Rightarrow> string \<Rightarrow> jsval io" where
  "PhaseResource_read wyndApi uri = read_by_id (phases_get wyndApi) uri"


subsection \<open>ErrorResource\<close>





definition ErrorResource_read :: "backend \<Rightarrow> string \<Rightarrow> jsval io" where
  "ErrorResource_read wyndApi uri = read_by_id (errors_get wyndApi) uri"




section \<open>Tool handlers (server/tools/index.ts)\<close>

text \<open>
  Every handler body is one \<^verbatim>\<open>try\<close> whose \<^verbatim>\<open>catch\<close> returns
  \<^verbatim>\<open>{success: false, error: error.message, ...}\<close>; \<open>extra\<close> are the further
  fields some tools add to it.
\<close>

definition failure :: "string \<Rightarrow> obj \<Rightarrow> jsval" where
  "failure msg extra = JObj ([(''success'', JBool False), (''error'', JStr msg)] @ extra)"

text \<open>\<^verbatim>\<open>if (args.k !== undefined) updateData.k = args.k\<close>, field by field.\<close>

definition pick_defined :: "obj \<Rightarrow> string list \<Rightarrow> obj" where
  "pick_defined args ks =
     map (\<lambda>k. (k, get_prop args k)) (filter (\<lambda>k. get_prop args k \<noteq> JUndefined) ks)"

subsection \<open>list\_tasks\<close>

definition listTasks_params :: "config \<Rightarrow> obj \<Rightarrow> obj" where
  "listTasks_params cfg args =
     (let params =
            [(''project_id'', JStr (defaultProjectId cfg)),
             (''priority'', get_prop args ''priority''),
             (''assignee_id'', get_prop args ''assignee_id''),
             (''phase_id'', get_prop args ''phase_id''),
             (''limit'', js_or (get_prop args ''limit'') (JNum ''50''))]
      in if truthy (get_prop args ''status'') \<and> get_prop args ''status'' \<noteq> JStr ''all''
         then set_prop params ''status'' (get_prop args ''status'')
         else if \<not> truthy (get_prop args ''status'')
         then set_prop params ''status'' (JStr ''in_progress'')
         else params)"

definition listTasks_handler :: "config \<Rightarrow> backend \<Rightarrow> obj \<Rightarrow> jsval io" where
  "listTasks_handler cfg wyndApi args =
     (let params = listTasks_params cfg args in
      case tasks_list cfg wyndApi (Some params) of
        (Inl error, log) \<Rightarrow> (failure (error_message error) [(''tasks'', JArr [])], log)
      | (Inr response, log) \<Rightarrow>
          (case member response ''data'' of
             Inl error \<Rightarrow> (failure (error_message error) [(''tasks'', JArr [])], log)
           | Inr d \<Rightarrow>
               (let tasks = js_or d (JArr []);
                    appliedStatus =
                      (if get_prop args ''status'' = JStr ''all'' then JStr ''all''
                       else if truthy (get_prop params ''status'') then get_prop params ''status''
                       else JStr ''in_progress (default)'');
                    len = opt_member tasks ''length''
                in case template
                          ([lit ''Found '', subst (Inr len), lit '' tasks''] @
                           (if appliedStatus = JStr ''all'' then []
                            else [lit ('' with status '' @ sq),
                                  subst (Inr (js_or (get_prop params ''status'')
                                                (JStr ''in_progress''))),
                                  lit sq])) of
                     Inl error \<Rightarrow> (failure (error_message error) [(''tasks'', JArr [])], log)
                   | Inr message \<Rightarrow>
                       (JObj
                          [(''success'', JBool True),
                           (''tasks'', tasks),
                           (''count'', len),
                           (''filter_applied'', JObj
                              [(''status'', appliedStatus),
                               (''priority'', js_or (get_prop params ''priority'') (JStr ''all'')),
                               (''phase_id'', js_or (get_prop params ''phase_id'') (JStr ''all'')),
                               (''project_id'', JStr (defaultProjectId cfg))]),
                           (''message'', JStr message)],
                        log))))"

subsection \<open>create\_task\<close>

definition createTask_handler :: "config \<Rightarrow> backend \<Rightarrow> obj \<Rightarrow> jsval io" where
  "createTask_handler cfg wyndApi args =
     (if \<not> truthy (get_prop args ''title'') then (failure ''Task title is required'' [], [])
      else
        (let taskData =
               [(''title'', get_prop args ''title''),
                (''description'', js_or (get_prop args ''description'') JNull),
                (''status'', js_or (get_prop args ''status'') (JStr ''todo'')),
                (''priority'', js_or (get_prop args ''priority'') (JStr ''medium'')),
                (''project_id'', JStr (defaultProjectId cfg)),
                (''phase_id'', js_or (get_prop args ''phase_id'') JNull),
                (''assignee_id'', js_or (get_prop args ''assignee_id'') JNull),
                (''due_date'', js_or (get_prop args ''due_date'') JNull),
                (''completed_at'', JNull),
                (''created_by'', JStr ''mcp-client'')]
         in case tasks_create cfg wyndApi taskData of
              (Inl error, log) \<Rightarrow> (failure (error_message error) [], log)
            | (Inr task, log) \<Rightarrow>
                (case template
                        [lit (''Task '' @ sq), subst (member task ''title''),
                         lit (sq @ '' created successfully with ID: ''),
                         subst (member task ''id'')] of
                   Inl error \<Rightarrow> (failure (error_message error) [], log)
                 | Inr message \<Rightarrow>
                     (JObj
                        [(''success'', JBool True),
                         (''task'', task),
                         (''message'', JStr message)],
                      log))))"

subsection \<open>update\_task\<close>

text \<open>
  The endpoint wrapper puts the id into the URL with a template literal; an id that
  cannot be converted throws there, before any request is made.
\<close>

definition updateTask_handler :: "config \<Rightarrow> backend \<Rightarrow> obj \<Rightarrow> jsval io" where
  "updateTask_handler cfg wyndApi args =
     (if \<not> truthy (get_prop args ''task_id'') then (failure ''Task ID is required'' [], [])
      else
        (let updateData =
               pick_defined args
                 [''title'', ''description'', ''status'', ''priority'', ''assignee_id'',
                  ''due_date'', ''phase_id'']
         in case js_String (get_prop args ''task_id'') of
              Inl error \<Rightarrow> (failure (error_message error) [], [])
            | Inr ident \<Rightarrow>
                (case tasks_update wyndApi ident updateData of
                   (Inl error, log) \<Rightarrow> (failure (error_message error) [], log)
                 | (Inr task, log) \<Rightarrow>
                     (case template
                             [lit (''Task '' @ sq), subst (member task ''title''),
                              lit (sq @ '' updated successfully'')] of
                        Inl error \<Rightarrow> (failure (error_message error) [], log)
                      | Inr message \<Rightarrow>
                          (JObj
                             [(''success'', JBool True),
                              (''task'', task),
                              (''message'', JStr message)],
                           log)))))"

subsection \<open>get\_project\<close>

definition getProject_handler :: "config \<Rightarrow> backend \<Rightarrow> obj \<Rightarrow> jsval io" where
  "getProject_handler cfg wyndApi args =
     (let projectId = defaultProjectId cfg in
      if projectId = [] then (failure ''No default project configured'' [], [])
      else
        (case projects_get wyndApi projectId of
           (Inl error, log1) \<Rightarrow> (failure (error_message error) [], log1)
         | (Inr project, log1) \<Rightarrow>
             (let (stats, log2) =
                    (if truthy (get_prop args ''include_stats'')
                     then (case projects_getStats wyndApi projectId of
                             (Inl error, l) \<Rightarrow> (JNull, l)
                           | (Inr st, l) \<Rightarrow> (st, l))
                     else (JNull, []))
              in case template [lit ''Retrieved project: '', subst (member project ''title'')] of
                   Inl error \<Rightarrow> (failure (error_message error) [], log1 @ log2)
                 | Inr message \<Rightarrow>
                     (JObj
                        [(''success'', JBool True),
                         (''project'', project),
                         (''stats'', stats),
                         (''message'', JStr message)],
                      log1 @ log2))))"

subsection \<open>list\_documents and create\_document\<close>

definition listDocuments_handler :: "config \<Rightarrow> backend \<Rightarrow> obj \<Rightarrow> jsval io" where
  "listDocuments_handler cfg wyndApi args =
     (let params =
            [(''project_id'', JStr (defaultProjectId cfg)),
             (''type'', get_prop args ''type''),
             (''search'', get_prop args ''search''),
             (''limit'', js_or (get_prop args ''limit'') (JNum ''20''))]
      in case documents_list cfg wyndApi (Some params) of
           (Inl error, log) \<Rightarrow> (failure (error_message error) [(''documents'', JArr [])], log)
         | (Inr response, log) \<Rightarrow>
             (case member response ''data'' of
                Inl error \<Rightarrow> (failure (error_message error) [(''documents'', JArr [])], log)
              | Inr d \<Rightarrow>
                  (let documents = js_or d (JArr []);
                       len = opt_member documents ''length''
                   in case template [lit ''Found '', subst (Inr len), lit '' documents''] of
                        Inl error \<Rightarrow>
                          (failure (error_message error) [(''documents'', JArr [])], log)
                      | Inr message \<Rightarrow>
                          (JObj
                             [(''success'', JBool True),
                              (''documents'', documents),
                              (''count'', len),
                              (''filter_applied'', JObj
                                 [(''type'', js_or (get_prop params ''type'') (JStr ''all'')),
                                  (''search'', js_or (get_prop params ''search'') (JStr ''none'')),
                                  (''project_id'', JStr (defaultProjectId cfg))]),
                              (''message'', JStr message)],
                           log))))"

definition createDocument_handler :: "config \<Rightarrow> backend \<Rightarrow> obj \<Rightarrow> jsval io" where
  "createDocument_handler cfg wyndApi args =
     (if \<not> truthy (get_prop args ''title'')
      then (failure ''Document title is required'' [], [])
      else
        (let documentData =
               [(''title'', get_prop args ''title''),
                (''content'', js_or (get_prop args ''content'') (JStr [])),
                (''type'', js_or (get_prop args ''type'') (JStr ''other'')),
                (''description'', js_or (get_prop args ''description'') JNull),
                (''project_id'', JStr (defaultProjectId cfg))]
         in case documents_create cfg wyndApi documentData of
              (Inl error, log) \<Rightarrow> (failure (error_message error) [], log)
            | (Inr document, log) \<Rightarrow>
                (case template
                        [lit (''Document '' @ sq), subst (member document ''title''),
                         lit (sq @ '' created successfully with ID: ''),
                         subst (member document ''id'')] of
                   Inl error \<Rightarrow> (failure (error_message error) [], log)
                 | Inr message \<Rightarrow>
                     (JObj
                        [(''success'', JBool True),
                         (''document'', document),
                         (''message'', JStr message)],
                      log))))"

subsection \<open>list\_phases, create\_phase and update\_phase\<close>

definition listPhases_handler :: "config \<Rightarrow> backend \<Rightarrow> obj \<Rightarrow> jsval io" where
  "listPhases_handler cfg wyndApi args =
     (let params =
            [(''project_id'', JStr (defaultProjectId cfg)),
             (''status'', get_prop args ''status''),
             (''limit'', js_or (get_prop args ''limit'') (JNum ''50''))]
      in case phases_list wyndApi (Some params) of
           (Inl error, log) \<Rightarrow> (failure (error_message error) [(''phases'', JArr [])], log)
         | (Inr response, log) \<Rightarrow>
             (case member response ''data'' of
                Inl error \<Rightarrow> (failure (error_message error) [(''phases'', JArr [])], log)
              | Inr d \<Rightarrow>
                  (let phases = js_or d (JArr []);
                       len = opt_member phases ''length''
                   in case template
                             ([lit ''Found '', subst (Inr len), lit '' phases''] @
                              (if truthy (get_prop params ''status'')
                               then [lit ('' with status '' @ sq),
                                     subst (Inr (get_prop params ''status'')), lit sq]
                               else [])) of
                        Inl error \<Rightarrow> (failure (error_message error) [(''phases'', JArr [])], log)
                      | Inr message \<Rightarrow>
                          (JObj
                             [(''success'', JBool True),
                              (''phases'', phases),
                              (''count'', len),
                              (''filter_applied'', JObj
                                 [(''status'', js_or (get_prop params ''status'') (JStr ''all'')),
                                  (''project_id'', JStr (defaultProjectId cfg))]),
                              (''message'', JStr message)],
                           log))))"

definition createPhase_handler :: "config \<Rightarrow> backend \<Rightarrow> obj \<Rightarrow> jsval io" where
  "createPhase_handler cfg wyndApi args =
     (if \<not> truthy (get_prop args ''title'') then (failure ''Phase title is required'' [], [])
      else
        (let phaseData =
               [(''title'', get_prop args ''title''),
                (''description'', js_or (get_prop args ''description'') JNull),
                (''status'', js_or (get_prop args ''status'') (JStr ''planning'')),
                (''order'', js_or (get_prop args ''order'') (JNum ''1'')),
                (''project_id'', JStr (defaultProjectId cfg)),
                (''start_date'', js_or (get_prop args ''start_date'') JNull),
                (''end_date'', js_or (get_prop args ''end_date'') JNull),
                (''color'', js_or (get_prop args ''color'') JNull)]
         in case phases_create wyndApi phaseData of
              (Inl error, log) \<Rightarrow> (failure (error_message error) [], log)
            | (Inr phase, log) \<Rightarrow>
                (case template
                        [lit (''Phase '' @ sq), subst (member phase ''title''),
                         lit (sq @ '' created successfully with ID: ''),
                         subst (member phase ''id'')] of
                   Inl error \<Rightarrow> (failure (error_message error) [], log)
                 | Inr message \<Rightarrow>
                     (JObj
                        [(''success'', JBool True),
                         (''phase'', phase),
                         (''message'', JStr message)],
                      log))))"

definition updatePhase_handler :: "config \<Rightarrow> backend \<Rightarrow> obj \<Rightarrow> jsval io" where
  "updatePhase_handler cfg wyndApi args =
     (if \<not> truthy (get_prop args ''phase_id'') then (failure ''Phase ID is required'' [], [])
      else
        (let updateData =
               pick_defined args
                 [''title'', ''description'', ''status'', ''order'', ''start_date'',
                  ''end_date'', ''color'']
         in case js_String (get_prop args ''phase_id'') of
              Inl error \<Rightarrow> (failure (error_message error) [], [])
            | Inr ident \<Rightarrow>
                (case phases_update wyndApi ident updateData of
                   (Inl error, log) \<Rightarrow> (failure (error_message error) [], log)
                 | (Inr phase, log) \<Rightarrow>
                     (case template
                             [lit (''Phase '' @ sq), subst (member phase ''title''),
                              lit (sq @ '' updated successfully'')] of
                        Inl error \<Rightarrow> (failure (error_message error) [], log)
                      | Inr message \<Rightarrow>
                          (JObj
                             [(''success'', JBool True),
                              (''phase'', phase),
                              (''message'', JStr message)],
                           log)))))"

subsection \<open>get\_context\<close>

definition dq :: string where
  "dq = [CHR 0x22]"

definition strs :: "string list \<Rightarrow> jsval" where
  "strs xs = JArr (map JStr xs)"

definition capabilities :: jsval where
  "capabilities = JObj
     [(''tasks'', JObj
         [(''defaultFilter'', JStr ''in_progress''),
          (''supportedStatuses'', strs [''todo'', ''in_progress'', ''done'', ''cancelled'']),
          (''supportedPriorities'', strs [''low'', ''medium'', ''high'', ''urgent'']),
          (''operations'', strs [''list'', ''create'', ''update'', ''delete'']),
          (''supportsPhases'', JBool True)]),
      (''phases'', JObj
         [(''optional'', JBool True),
          (''recommended'', JBool True),
          (''description'', JStr
             ''Optional but highly recommended for better project organization and workflow management''),
          (''supportedStatuses'', strs [''planning'', ''active'', ''completed'', ''on_hold'']),
          (''operations'', strs [''list'', ''create'', ''update'', ''delete'']),
          (''features'', strs [''ordering'', ''date_ranges'', ''color_coding'', ''task_organization''])]),
      (''projects'', JObj
         [(''readOnly'', JBool True),
          (''operations'', strs [''get'', ''stats''])]),
      (''documents'', JObj
         [(''operations'', strs [''list'', ''create'', ''update'', ''delete'']),
          (''supportedFormats'', strs [''markdown'', ''text'', ''html''])])]"

definition usage :: "string \<Rightarrow> jsval" where
  "usage projectId = JObj
     [(''quickStart'', JObj
         [(''getContext'', JStr ''Call get_context to understand server capabilities''),
          (''listTasks'', JStr ''Call list_tasks (defaults to in_progress)''),
          (''createTask'', JStr (''Call create_task with project_id: '' @ projectId)),
          (''getProject'', JStr ''Call get_project for project information''),
          (''listDocuments'', JStr ''Call list_documents for project documentation'')]),
      (''examples'', JObj
         [(''listInProgressTasks'', JStr ''list_tasks (default behavior)''),
          (''listAllTasks'', JStr (''list_tasks with status: '' @ dq @ ''all'' @ dq)),
          (''createHighPriorityTask'', JStr (''create_task with priority: '' @ dq @ ''high'' @ dq)),
          (''getProjectWithStats'', JStr ''get_project with include_stats: true''),
          (''listPhases'', JStr ''list_phases (all phases)''),
          (''createPhase'', JStr (''create_phase with title: '' @ dq @ ''Phase 1'' @ dq)),
          (''listTasksByPhase'', JStr (''list_tasks with phase_id: '' @ dq @ ''phase-uuid'' @ dq))])]"

text \<open>
  The project and, when it names one, its workspace are fetched first; a failure of
  either call (a workspace id that cannot be written into the URL included) is logged
  and leaves the value \<^verbatim>\<open>null\<close>.
\<close>

definition fetch_context_info :: "config \<Rightarrow> backend \<Rightarrow> (jsval \<times> jsval) io" where
  "fetch_context_info cfg wyndApi =
     (if defaultProjectId cfg = [] then ((JNull, JNull), [])
      else
        (case projects_get wyndApi (defaultProjectId cfg) of
           (Inl error, log1) \<Rightarrow> ((JNull, JNull), log1)
         | (Inr projectInfo, log1) \<Rightarrow>
             if truthy projectInfo \<and> truthy (opt_member projectInfo ''workspace_id'')
             then (case js_String (opt_member projectInfo ''workspace_id'') of
                     Inl error \<Rightarrow> ((projectInfo, JNull), log1)
                   | Inr ident \<Rightarrow>
                       (case workspaces_get wyndApi ident of
                          (Inl error, log2) \<Rightarrow> ((projectInfo, JNull), log1 @ log2)
                        | (Inr workspaceInfo, log2) \<Rightarrow>
                            ((projectInfo, workspaceInfo), log1 @ log2)))
             else ((projectInfo, JNull), log1)))"

definition getContext_handler :: "config \<Rightarrow> backend \<Rightarrow> obj \<Rightarrow> jsval io" where
  "getContext_handler cfg wyndApi args =
     (case fetch_context_info cfg wyndApi of ((projectInfo, workspaceInfo), log) \<Rightarrow>
        (let context =
               [(''server'', JObj
                   [(''name'', JStr ''wynd''),
                    (''version'', JStr ''1.5.1''),
                    (''description'', JStr ''WYND Project Management MCP Server''),
                    (''transport'', JStr ''stdio''),
                    (''environment'', js_or (JStr (env cfg)) (JStr ''development''))]),
                (''project'', JObj
                   [(''defaultProjectId'', JStr (defaultProjectId cfg)),
                    (''title'', js_or (opt_member projectInfo ''title'') (JStr ''Unknown Project'')),
                    (''description'', js_or (opt_member projectInfo ''description'') JNull),
                    (''status'', js_or (opt_member projectInfo ''status'') (JStr ''unknown'')),
                    (''workspaceId'', js_or (opt_member projectInfo ''workspace_id'') JNull)]),
                (''workspace'', JObj
                   [(''id'', js_or (opt_member workspaceInfo ''id'') JNull),
                    (''name'', js_or (opt_member workspaceInfo ''name'') (JStr ''Unknown Workspace'')),
                    (''description'', js_or (opt_member workspaceInfo ''description'') JNull)]),
                (''capabilities'', capabilities)];
             context' =
               (if get_prop args ''include_examples'' \<noteq> JBool False
                then set_prop context ''usage'' (usage (defaultProjectId cfg))
                else context)
         in (JObj
               [(''success'', JBool True),
                (''context'', JObj context'),
                (''message'', JStr ''Server context retrieved successfully'')],
             log)))"

subsection \<open>The tool registry\<close>

record tool =
  tool_name :: string
  tool_properties :: "string list"
  tool_required :: "string list"
  tool_handler :: "config \<Rightarrow> backend \<Rightarrow> obj \<Rightarrow> jsval io"

definition listTasks :: tool where
  "listTasks =
     \<lparr>tool_name = ''list_tasks'',
      tool_properties = [''status'', ''priority'', ''assignee_id'', ''limit'', ''phase_id''],
      tool_required = [],
      tool_handler = listTasks_handler\<rparr>"

definition createTask :: tool where
  "createTask =
     \<lparr>tool_name = ''create_task'',
      tool_properties =
        [''title'', ''description'', ''status'', ''priority'', ''assignee_id'', ''due_date'',
         ''phase_id''],
      tool_required = [''title''],
      tool_handler = createTask_handler\<rparr>"

definition updateTask :: tool where
  "updateTask =
     \<lparr>tool_name = ''update_task'',
      tool_properties =
        [''task_id'', ''title'', ''description'', ''status'', ''priority'', ''assignee_id'',
         ''due_date'', ''phase_id''],
      tool_required = [''task_id''],
      tool_handler = updateTask_handler\<rparr>"

definition getProject :: tool where
  "getProject =
     \<lparr>tool_name = ''get_project'',
      tool_properties = [''include_stats''],
      tool_required = [],
      tool_handler = getProject_handler\<rparr>"

definition listDocuments :: tool where
  "listDocuments =
     \<lparr>tool_name = ''list_documents'',
      tool_properties = [''type'', ''search'', ''limit''],
      tool_required = [],
      tool_handler = listDocuments_handler\<rparr>"

definition createDocument :: tool where
  "createDocument =
     \<lparr>tool_name = ''create_document'',
      tool_properties = [''title'', ''content'', ''type'', ''description''],
      tool_required = [''title''],
      tool_handler = createDocument_handler\<rparr>"

definition listPhases :: tool where
  "listPhases =
     \<lparr>tool_name = ''list_phases'',
      tool_properties = [''status'', ''limit''],
      tool_required = [],
      tool_handler = listPhases_handler\<rparr>"

definition createPhase :: tool where
  "createPhase =
     \<lparr>tool_name = ''create_phase'',
      tool_properties =
        [''title'', ''description'', ''status'', ''order'', ''start_date'', ''end_date'',
         ''color''],
      tool_required = [''title''],
      tool_handler = createPhase_handler\<rparr>"

definition updatePhase :: tool where
  "updatePhase =
     \<lparr>tool_name = ''update_phase'',
      tool_properties =
        [''phase_id'', ''title'', ''description'', ''status'', ''order'', ''start_date'',
         ''end_date'', ''color''],
      tool_required = [''phase_id''],
      tool_handler = updatePhase_handler\<rparr>"

definition getContext :: tool where
  "getContext =
     \<lparr>tool_name = ''get_context'',
      tool_properties = [''include_examples''],
      tool_required = [],
      tool_handler = getContext_handler\<rparr>"

definition tools :: "tool list" where
  "tools =
     [listTasks, createTask, updateTask, listPhases, createPhase, updatePhase, getProject,
      listDocuments, createDocument, getContext]"


section \<open>HTTP transport (server/transport/http.ts)\<close>

text \<open>
  The response object as the handler drives it: \<^verbatim>\<open>setHeader\<close>, \<^verbatim>\<open>writeHead\<close>,
  \<^verbatim>\<open>write\<close> and \<^verbatim>\<open>end\<close> are recorded; nothing is written once the response has
  ended.
\<close>

record server_response =
  statusCode :: nat
  res_headers :: "(string \<times> string) list"
  headersSent :: bool
  res_body :: "string list"
  res_ended :: bool

definition new_response :: server_response where
  "new_response =
     \<lparr>statusCode = 200, res_headers = [], headersSent = False, res_body = [],
      res_ended = False\<rparr>"

definition setHeader :: "string \<Rightarrow> string \<Rightarrow> server_response \<Rightarrow> server_response" where
  "setHeader k v res = res\<lparr>res_headers := AList.update k v (res_headers res)\<rparr>"

definition writeHead ::
  "nat \<Rightarrow> (string \<times> string) list \<Rightarrow> server_response \<Rightarrow> server_response" where
  "writeHead st hs res =
     res\<lparr>statusCode := st,
         res_headers := foldl (\<lambda>acc (k, v). AList.update k v acc) (res_headers res) hs,
         headersSent := True\<rparr>"

definition res_write :: "string \<Rightarrow> server_response \<Rightarrow> server_response" where
  "res_write chunk res =
     (if res_ended res then res
      else res\<lparr>headersSent := True, res_body := res_body res @ [chunk]\<rparr>)"

definition res_end :: "string option \<Rightarrow> server_response \<Rightarrow> server_response" where
  "res_end chunk res =
     (if res_ended res then res
      else res\<lparr>headersSent := True,
               res_body := res_body res @ (case chunk of None \<Rightarrow> [] | Some c \<Rightarrow> [c]),
               res_ended := True\<rparr>)"

text \<open>The JSON codec of the runtime, which the transport only calls.\<close>

record runtime =
  JSON_parse :: "string \<Rightarrow> js_error + jsval"
  JSON_stringify :: "jsval \<Rightarrow> string"

text \<open>
  An incoming request: its method, and what buffering its body comes to (the whole
  text, or the error the request stream raised).
\<close>

record incoming =
  in_method :: string
  in_url :: string
  in_body :: "js_error + string"

datatype stream_event = StreamData string | StreamEnd | StreamError js_error

text \<open>
  What the registered message handler resolves to: the message, and the events of its
  \<^verbatim>\<open>stream\<close> when it carries one.
\<close>

record handler_result =
  hr_message :: jsval
  hr_stream :: "stream_event list option"

record transport =
  connections :: "nat set"
  messageHandler :: "(jsval \<Rightarrow> js_error + handler_result) option"
  isRunning :: bool

text \<open>The three listeners on a streamed response.\<close>

fun on_stream_event :: "runtime \<Rightarrow> stream_event \<Rightarrow> server_response \<Rightarrow> server_response" where
  "on_stream_event rt (StreamData chunk) res = res_write chunk res"
| "on_stream_event rt StreamEnd res = res_end None res"
| "on_stream_event rt (StreamError error) res =
     (if \<not> headersSent res
      then res_end (Some (JSON_stringify rt (JObj [(''error'', JStr ''Stream error'')])))
             (res\<lparr>statusCode := 500\<rparr>)
      else res_end None res)"

text \<open>The \<^verbatim>\<open>catch\<close> of the request handler.\<close>

definition internal_error :: "runtime \<Rightarrow> js_error \<Rightarrow> server_response \<Rightarrow> server_response" where
  "internal_error rt error res =
     res_end (Some (JSON_stringify rt
                (JObj [(''error'', JStr ''Internal Server Error''),
                       (''details'', JStr (error_message error))])))
       (writeHead 500 [(''Content-Type'', ''application/json'')] res)"

text \<open>
  \<^verbatim>\<open>requestHandler\<close>: the connection is tracked, the CORS headers are set, then the
  method decides. The result is the transport, the response, and the messages that were
  passed to the message handler.
\<close>

definition requestHandler ::
  "runtime \<Rightarrow> transport \<Rightarrow> nat \<Rightarrow> incoming
     \<Rightarrow> transport \<times> server_response \<times> jsval list" where
  "requestHandler rt t conn req =
     (let t' = t\<lparr>connections := insert conn (connections t)\<rparr>;
          res =
            setHeader ''Access-Control-Allow-Headers'' ''Content-Type''
              (setHeader ''Access-Control-Allow-Methods'' ''GET, POST, OPTIONS''
                 (setHeader ''Access-Control-Allow-Origin'' ''*'' new_response))
      in if in_method req = ''OPTIONS'' then (t', res_end None (writeHead 204 [] res), [])
         else if in_method req \<noteq> ''POST''
         then (t',
               res_end (Some (JSON_stringify rt (JObj [(''error'', JStr ''Method Not Allowed'')])))
                 (writeHead 405 [(''Content-Type'', ''application/json'')] res),
               [])
         else
           (case in_body req of
              Inl error \<Rightarrow> (t', internal_error rt error res, [])
            | Inr body \<Rightarrow>
                (case JSON_parse rt body of
                   Inl error \<Rightarrow> (t', internal_error rt error res, [])
                 | Inr message \<Rightarrow>
                     (case messageHandler t of
                        None \<Rightarrow>
                          (t',
                           res_end (Some (JSON_stringify rt
                                      (JObj [(''error'', JStr ''No message handler registered'')])))
                             (writeHead 500 [(''Content-Type'', ''application/json'')] res),
                           [])
                      | Some handler \<Rightarrow>
                          (case handler message of
                             Inl error \<Rightarrow> (t', internal_error rt error res, [message])
                           | Inr response \<Rightarrow>
                               (let res1 = setHeader ''Content-Type'' ''application/json'' res in
                                case member (hr_message response) ''stream'' of
                                  Inl error \<Rightarrow> (t', internal_error rt error res1, [message])
                                | Inr s \<Rightarrow>
                                    (case hr_stream response of
                                       Some events \<Rightarrow>
                                         (t',
                                          fold (on_stream_event rt) events
                                            (res_write
                                               (JSON_stringify rt (hr_message response) @ [CHR 0x0A])
                                               (setHeader ''Transfer-Encoding'' ''chunked'' res1)),
                                          [message])
                                     | None \<Rightarrow>
                                         (t',
                                          res_end (Some (JSON_stringify rt (hr_message response))) res1,
                                          [message]))))))))"


section \<open>ContextResource (server/resources/context.ts)\<close>

text \<open>
  The context handler only reads. Its project and workspace lookups are the ones of the
  \<^verbatim>\<open>get_context\<close> tool (\<open>fetch_context_info\<close>); the object it builds around them
  differs.
\<close>

definition getContextInfo :: "config \<Rightarrow> backend \<Rightarrow> jsval io" where
  "getContextInfo cfg wyndApi =
     (case fetch_context_info cfg wyndApi of ((projectInfo, workspaceInfo), log) \<Rightarrow>
        (JObj
           [(''server'', JObj
               [(''name'', JStr ''wynd''),
                (''version'', JStr ''1.4.0''),
                (''description'', JStr ''WYND Project Management MCP Server''),
                (''transport'', JStr ''stdio''),
                (''environment'', js_or (JStr (env cfg)) (JStr ''development''))]),
            (''project'', JObj
               [(''defaultProjectId'', JStr (defaultProjectId cfg)),
                (''title'', js_or (opt_member projectInfo ''title'') (JStr ''Unknown Project'')),
                (''description'', js_or (opt_member projectInfo ''description'') JNull),
                (''status'', js_or (opt_member projectInfo ''status'') (JStr ''unknown'')),
                (''workspaceId'', js_or (opt_member projectInfo ''workspace_id'') JNull)]),
            (''workspace'', JObj
               [(''id'', js_or (opt_member workspaceInfo ''id'') JNull),
                (''title'', js_or (opt_member workspaceInfo ''name'') (JStr ''Unknown Workspace'')),
                (''description'', js_or (opt_member workspaceInfo ''description'') JNull)]),
            (''resources'', strs
               [''wynd://context'', ''wynd://projects'', ''wynd://documents'', ''wynd://errors'',
                ''wynd://tasks'', ''wynd://prompts'']),
            (''capabilities'', JObj
               [(''tasks'', JObj
                   [(''defaultFilter'', JStr ''in_progress''),
                    (''supportedStatuses'', strs [''todo'', ''in_progress'', ''done'', ''cancelled'']),
                    (''supportedPriorities'', strs [''low'', ''medium'', ''high'', ''urgent''])]),
                (''projects'', JObj
                   [(''readOnly'', JBool True),
                    (''operations'', strs [''list'', ''read'', ''stats''])]),
                (''documents'', JObj
                   [(''operations'', strs [''list'', ''read'', ''create'', ''update'', ''delete'']),
                    (''supportedFormats'', strs [''markdown'', ''text'', ''html''])]),
                (''errors'', JObj
                   [(''public'', JBool True),
                    (''operations'', strs [''list'', ''read'', ''create'', ''update'', ''delete''])]),
                (''prompts'', JObj
                   [(''operations'', strs [''list'', ''read'', ''create'', ''update'', ''delete'']),
                    (''features'', strs [''categorization'', ''tagging'', ''versioning'',
                                         ''variables''])])]),
            (''usage'', JObj
               [(''quickStart'', JObj
                   [(''listTasks'', JStr ''Read wynd://tasks (defaults to in_progress)''),
                    (''createTask'', JStr (''Create task with project_id: '' @ defaultProjectId cfg)),
                    (''getProject'', JStr (''Read wynd://projects/'' @ defaultProjectId cfg)),
                    (''listDocuments'', JStr ''Read wynd://documents (auto-filtered to project)'')]),
                (''examples'', JObj
                   [(''taskWithStatus'', JStr ''wynd://tasks?status=todo''),
                    (''projectStats'', JStr (''wynd://projects/'' @ defaultProjectId cfg @ ''/stats'')),
                    (''documentsByType'', JStr ''wynd://documents?type=documentation'')])])],
         log))"

definition getProjectContext :: "config \<Rightarrow> backend \<Rightarrow> jsval io" where
  "getProjectContext cfg wyndApi =
     (if defaultProjectId cfg = []
      then (JObj [(''error'', JStr ''No default project configured''),
                  (''defaultProjectId'', JNull)], [])
      else
        (case projects_get wyndApi (defaultProjectId cfg) of
           (Inr projectInfo, log) \<Rightarrow>
             (JObj
                [(''defaultProjectId'', JStr (defaultProjectId cfg)),
                 (''project'', projectInfo),
                 (''usage'', JObj
                    [(''createTask'', JStr (''Use project_id: '' @ dq @ defaultProjectId cfg @ dq @
                                            '' when creating tasks'')),
                     (''listTasks'', JStr ''Tasks are automatically filtered to this project''),
                     (''createDocument'', JStr (''Use project_id: '' @ dq @ defaultProjectId cfg @ dq @
                                                '' when creating documents''))])],
              log)
         | (Inl error, log) \<Rightarrow>
             (JObj
                [(''error'', JStr ''Could not fetch project information''),
                 (''defaultProjectId'', JStr (defaultProjectId cfg)),
                 (''details'', JStr (error_message error))],
              log)))"

text \<open>\<^verbatim>\<open>projects.data?.length || 0\<close>; every error counts as zero.\<close>

definition getWorkspaceProjectCount :: "backend \<Rightarrow> jsval \<Rightarrow> jsval io" where
  "getWorkspaceProjectCount wyndApi workspaceId =
     (case projects_list wyndApi (Some [(''workspace_id'', workspaceId)]) of
        (Inl error, log) \<Rightarrow> (JNum ''0'', log)
      | (Inr projects, log) \<Rightarrow>
          (case member projects ''data'' of
             Inl error \<Rightarrow> (JNum ''0'', log)
           | Inr d \<Rightarrow> (js_or (opt_member d ''length'') (JNum ''0''), log)))"

definition workspace_context_error :: "js_error \<Rightarrow> jsval" where
  "workspace_context_error error =
     JObj [(''error'', JStr ''Could not fetch workspace information''),
           (''details'', JStr (error_message error))]"

definition getWorkspaceContext :: "config \<Rightarrow> backend \<Rightarrow> jsval io" where
  "getWorkspaceContext cfg wyndApi =
     (if defaultProjectId cfg = []
      then (JObj [(''error'', JStr ''No default project configured'')], [])
      else
        (case projects_get wyndApi (defaultProjectId cfg) of
           (Inl error, log1) \<Rightarrow> (workspace_context_error error, log1)
         | (Inr projectInfo, log1) \<Rightarrow>
             (case member projectInfo ''workspace_id'' of
                Inl error \<Rightarrow> (workspace_context_error error, log1)
              | Inr workspace_id \<Rightarrow>
                  if \<not> truthy workspace_id
                  then (JObj [(''error'', JStr ''Project has no workspace association'')], log1)
                  else
                    (case js_String workspace_id of
                       Inl error \<Rightarrow> (workspace_context_error error, log1)
                     | Inr ident \<Rightarrow>
                         (case workspaces_get wyndApi ident of
                            (Inl error, log2) \<Rightarrow> (workspace_context_error error, log1 @ log2)
                          | (Inr workspaceInfo, log2) \<Rightarrow>
                              (case getWorkspaceProjectCount wyndApi workspace_id of
                                 (projectCount, log3) \<Rightarrow>
                                   (JObj [(''workspace'', workspaceInfo),
                                          (''projectCount'', projectCount)],
                                    log1 @ log2 @ log3)))))))"

definition getServerContext :: "config \<Rightarrow> jsval" where
  "getServerContext cfg =
     JObj
       [(''server'', JObj
           [(''name'', JStr ''wynd''),
            (''version'', JStr ''1.4.0''),
            (''transport'', JStr ''stdio''),
            (''environment'', js_or (JStr (env cfg)) (JStr ''development''))]),
        (''api'', JObj
           [(''baseUrl'', JStr (api_url cfg)),
            (''timeout'', JNum (api_timeout cfg)),
            (''authenticated'', JBool (truthy (JStr (api_token cfg))))]),
        (''configuration'', JObj
           [(''defaultProjectId'', JStr (defaultProjectId cfg)),
            (''logLevel'', JStr (logLevel cfg))])]"

definition ContextResource_read :: "config \<Rightarrow> backend \<Rightarrow> string \<Rightarrow> jsval io" where
  "ContextResource_read cfg wyndApi uri =
     (if uri = ''wynd://context'' \<or> endsWith uri ''/context'' then getContextInfo cfg wyndApi
      else
        (let contextType = last_segment uri in
         if contextType = ''project'' then getProjectContext cfg wyndApi
         else if contextType = ''workspace'' then getWorkspaceContext cfg wyndApi
         else if contextType = ''server'' then (getServerContext cfg, [])
         else getContextInfo cfg wyndApi))"

section \<open>The resource handlers as one table\<close>

datatype entity = Tasks | Documents | Workspaces | Projects | Errors | Prompts


text \<open>
  One operation of one handler. \<open>depth\<close> is the call stack left for the project
  handler's \<^verbatim>\<open>read\<close>, \<open>now\<close> the clock reading of the error handler's
  \<^verbatim>\<open>update\<close>. A returned value is \<open>Inr\<close>, a thrown error \<open>Inl\<close>.
\<close>

definition returned :: "jsval io \<Rightarrow> (js_error + jsval) io" where
  "returned r = (case r of (v, log) \<Rightarrow> (Inr v, log))"







text \<open>The \<^verbatim>\<open>read\<close> of each handler that has one.\<close>

datatype resource =
  TaskR | ProjectR | DocumentR | ErrorR | WorkspaceR | PromptR | PhaseR | ContextR

fun resource_read :: "nat \<Rightarrow> config \<Rightarrow> resource \<Rightarrow> backend \<Rightarrow> string \<Rightarrow> jsval io" where
  "resource_read depth cfg TaskR wyndApi uri = TaskResource_read wyndApi uri"
| "resource_read depth cfg ProjectR wyndApi uri = ProjectResource_read depth cfg wyndApi uri"
| "resource_read depth cfg DocumentR wyndApi uri = DocumentResource_read wyndApi uri"
| "resource_read depth cfg ErrorR wyndApi uri = ErrorResource_read wyndApi uri"
| "resource_read depth cfg WorkspaceR wyndApi uri = WorkspaceResource_read wyndApi uri"
| "resource_read depth cfg PromptR wyndApi uri = PromptResource_read wyndApi uri"
| "resource_read depth cfg PhaseR wyndApi uri = PhaseResource_read wyndApi uri"
| "resource_read depth cfg ContextR wyndApi uri = ContextResource_read cfg wyndApi uri"

section \<open>Sample inputs\<close>

definition cfg0 :: config where
  "cfg0 =
     \<lparr>defaultProjectId = ''proj_1'', env = ''test'',
      api_url = ''https://wynd.mmogomedia.com'', api_timeout = ''10000'',
      api_token = ''token'', logLevel = ''info''\<rparr>"


definition empty_page :: backend where
  "empty_page r = Inr (JObj [(''data'', JArr [])])"

text \<open>A backend holding one error record, and the same backend after a write.\<close>

definition stored_error :: jsval where
  "stored_error =
     JObj [(''id'', JStr ''7''), (''error_type'', JStr ''TypeError''),
           (''error_message'', JStr ''x is undefined''), (''status'', JStr ''open'')]"

definition one_error :: backend where
  "one_error r =
     (if req_method r = GET \<and> req_url r = ''/api/errors/7'' then Inr stored_error
      else Inl (ApiError ''Not found'' 404 (JObj [(''message'', JStr ''Not found'')])))"

definition one_error_later :: backend where
  "one_error_later r =
     (if req_method r = GET \<and> req_url r = ''/api/errors/7'' then Inr stored_error
      else if req_method r = GET
      then Inl (ApiError ''Not found'' 404 (JObj [(''message'', JStr ''Not found'')]))
      else Inr JNull)"


text \<open>Two outcomes of the HTTP library: a 404 with a message, and no response at all.\<close>

definition not_found_error :: axios_error where
  "not_found_error =
     \<lparr>err_message = ''Request failed with status code 404'',
      err_response =
        Some \<lparr>resp_status = 404, resp_data = JObj [(''message'', JStr ''Task not found'')]\<rparr>,
      err_request = True\<rparr>"

definition timeout_error :: axios_error where
  "timeout_error =
     \<lparr>err_message = ''timeout of 10000ms exceeded'', err_response = None,
      err_request = True\<rparr>"

definition raw0 :: raw_backend where
  "raw0 r = (if req_url r = ''/api/tasks/1'' then Inl not_found_error else Inl timeout_error)"

definition get_req :: "string \<Rightarrow> request" where
  "get_req u = \<lparr>req_method = GET, req_url = u, req_params = None, req_data = None\<rparr>"

definition rt0 :: runtime where
  "rt0 = \<lparr>JSON_parse = (\<lambda>s. Inr (JStr s)), JSON_stringify = (\<lambda>v. ''{}'')\<rparr>"

definition transport0 :: transport where
  "transport0 =
     \<lparr>connections = {},
      messageHandler = Some (\<lambda>m. Inr \<lparr>hr_message = m, hr_stream = None\<rparr>),
      isRunning = True\<rparr>"



section \<open>Project scoping, as the endpoint wrappers apply it\<close>

text \<open>
  The project id a scoped wrapper sends for the value \<open>v\<close> the caller gave
  (\<open>JUndefined\<close> when the key is absent).
\<close>

definition scoped :: "config \<Rightarrow> jsval \<Rightarrow> jsval" where
  "scoped cfg v = (if truthy v then v else JStr (defaultProjectId cfg))"

section \<open>Basic facts about objects and client calls\<close>

lemma get_prop_set_prop [simp]:
  "get_prop (set_prop ob k v) k' = (if k' = k then v else get_prop ob k')"
  by (simp add: get_prop_def set_prop_def update_conv')

lemma has_key_set_prop [simp]:
  "has_key (set_prop ob k v) k' = (k' = k \<or> has_key ob k')"
  by (auto simp add: has_key_def set_prop_def update_conv')

lemma js_or_same [simp]: "js_or a a = a"
  by (simp add: js_or_def)

lemma get_prop_absent: "\<not> has_key ob k \<Longrightarrow> get_prop ob k = JUndefined"
  by (simp add: has_key_def get_prop_def)

lemma get_prop_Cons [simp]:
  "get_prop ((k, v) # ob) k' = (if k' = k then v else get_prop ob k')"
  by (simp add: get_prop_def)

lemma get_prop_Nil [simp]: "get_prop [] k = JUndefined"
  by (simp add: get_prop_def)

lemma has_key_Cons [simp]: "has_key ((k, v) # ob) k' = (k' = k \<or> has_key ob k')"
  by (auto simp add: has_key_def)

lemma has_key_Nil [simp]: "\<not> has_key [] k"
  by (simp add: has_key_def)

lemma api_simps [simp]:
  "api_get wyndApi u ps =
     (wyndApi \<lparr>req_method = GET, req_url = u, req_params = ps, req_data = None\<rparr>,
      [\<lparr>req_method = GET, req_url = u, req_params = ps, req_data = None\<rparr>])"
  "api_post wyndApi u d =
     (wyndApi \<lparr>req_method = POST, req_url = u, req_params = None, req_data = Some d\<rparr>,
      [\<lparr>req_method = POST, req_url = u, req_params = None, req_data = Some d\<rparr>])"
  "api_put wyndApi u d =
     (wyndApi \<lparr>req_method = PUT, req_url = u, req_params = None, req_data = Some d\<rparr>,
      [\<lparr>req_method = PUT, req_url = u, req_params = None, req_data = Some d\<rparr>])"
  by (simp_all add: api_get_def api_post_def api_put_def call_def)

lemma snd_data_or_empty [simp]: "snd (data_or_empty r) = snd r"
  by (simp add: data_or_empty_def split: prod.splits sum.splits)

lemma snd_opt_data_or_empty [simp]: "snd (opt_data_or_empty r) = snd r"
  by (simp add: opt_data_or_empty_def split: prod.splits sum.splits)

lemma fst_returned [simp]: "fst (returned r) = Inr (fst r)"
  by (simp add: returned_def split: prod.splits)

lemma snd_returned [simp]: "snd (returned r) = snd r"
  by (simp add: returned_def split: prod.splits)

section \<open>The status filter of task listing\<close>

text \<open>
  The \<^verbatim>\<open>list_tasks\<close> tool sends exactly one request. Without a status argument its
  parameters carry \<^verbatim>\<open>status = "in_progress"\<close>; with \<^verbatim>\<open>status = "all"\<close> they have no
  status key.
\<close>

lemma snd_listTasks_handler:
  "snd (listTasks_handler cfg wyndApi args) =
     [\<lparr>req_method = GET, req_url = ''/api/tasks'',
       req_params = Some (set_prop (listTasks_params cfg args) ''project_id''
          (js_or (get_prop (listTasks_params cfg args) ''project_id'')
                 (JStr (defaultProjectId cfg)))),
       req_data = None\<rparr>]"
  by (simp add: listTasks_handler_def tasks_list_def Let_def spread_def opt_prop_def
      split: prod.splits sum.splits)

lemma listTasks_status_filter:
  "(\<not> has_key args ''status'' \<longrightarrow>
      (\<exists>r. snd (listTasks_handler cfg wyndApi args) = [r] \<and>
           opt_prop (req_params r) ''status'' = JStr ''in_progress'')) \<and>
   (get_prop args ''status'' = JStr ''all'' \<longrightarrow>
      (\<exists>r ps. snd (listTasks_handler cfg wyndApi args) = [r] \<and>
            req_params r = Some ps \<and> \<not> has_key ps ''status''))"
  by (simp add: snd_listTasks_handler listTasks_params_def opt_prop_def Let_def get_prop_absent)

text \<open>
  \<^verbatim>\<open>TaskResource.list\<close> defaults the status in the same way when the caller gives
  none.
\<close>

lemma TaskResource_list_default_status:
  "\<not> has_key (spread params) ''status'' \<Longrightarrow>
   \<exists>r. snd (TaskResource_list cfg wyndApi params) = [r] \<and>
       opt_prop (req_params r) ''status'' = JStr ''in_progress''"
  by (cases params)
     (simp_all add: TaskResource_list_def tasks_list_def spread_def opt_prop_def Let_def
       get_prop_absent)

text \<open>
  C1. Listing tasks with \<^verbatim>\<open>status = "all"\<close> is meant to send no status filter. The
  \<^verbatim>\<open>list_tasks\<close> tool does so (\<open>listTasks_status_filter\<close>), but
  \<^verbatim>\<open>TaskResource.list\<close> only replaces a falsy status: called with
  \<^verbatim>\<open>{status: "all"}\<close> it sends \<^verbatim>\<open>status = "all"\<close> to the backend literally.
\<close>

theorem TaskResource_list_forwards_all:
  "snd (TaskResource_list cfg0 empty_page (Some [(''status'', JStr ''all'')])) =
     [\<lparr>req_method = GET, req_url = ''/api/tasks'',
       req_params = Some [(''status'', JStr ''all''), (''project_id'', JStr ''proj_1'')],
       req_data = None\<rparr>]"
  by (simp add: TaskResource_list_def tasks_list_def data_or_empty_def cfg0_def empty_page_def
      spread_def opt_prop_def js_or_def set_prop_def Let_def)

section \<open>Default project scoping\<close>

text \<open>
  One layer up, \<^verbatim>\<open>TaskResource.list\<close> overwrites whatever project id its caller gave
  before it calls the wrapper, so the request always carries the configured one.
\<close>

lemma TaskResource_list_project_id:
  "\<exists>r. snd (TaskResource_list cfg wyndApi params) = [r] \<and>
       opt_prop (req_params r) ''project_id'' = JStr (defaultProjectId cfg)"
  by (cases params)
     (simp_all add: TaskResource_list_def tasks_list_def spread_def opt_prop_def Let_def)

text \<open>
  C2, as stated, fails: a caller who passes the empty string as \<^verbatim>\<open>project_id\<close> to
  \<^verbatim>\<open>tasks.list\<close> or \<^verbatim>\<open>tasks.create\<close> gets the configured default project, not
  the empty string, because the wrappers choose with \<^verbatim>\<open>||\<close>.
\<close>

theorem empty_project_id_counterexample:
  "snd (tasks_list cfg0 empty_page (Some [(''project_id'', JStr [])])) =
     [\<lparr>req_method = GET, req_url = ''/api/tasks'',
       req_params = Some [(''project_id'', JStr ''proj_1'')], req_data = None\<rparr>] \<and>
   snd (tasks_create cfg0 empty_page [(''title'', JStr ''t''), (''project_id'', JStr [])]) =
     [\<lparr>req_method = POST, req_url = ''/api/tasks'', req_params = None,
       req_data = Some [(''title'', JStr ''t''), (''project_id'', JStr ''proj_1'')]\<rparr>]"
  by (simp add: tasks_list_def tasks_create_def cfg0_def spread_def opt_prop_def js_or_def
      set_prop_def Let_def)

text \<open>
  C2, amended. Every \<^verbatim>\<open>list\<close> and \<^verbatim>\<open>create\<close> of tasks and documents sends exactly
  one request, and the project id in it is the caller's value when that value is truthy
  and the configured default otherwise: when the key is absent, and also when the value
  is the empty string, \<^verbatim>\<open>null\<close>, \<^verbatim>\<open>0\<close> or \<^verbatim>\<open>false\<close>.
\<close>

theorem default_project_scoping:
  "(\<exists>r. snd (tasks_list cfg wyndApi params) = [r] \<and>
        opt_prop (req_params r) ''project_id'' = scoped cfg (opt_prop params ''project_id'')) \<and>
   (\<exists>r. snd (documents_list cfg wyndApi params) = [r] \<and>
        opt_prop (req_params r) ''project_id'' = scoped cfg (opt_prop params ''project_id'')) \<and>
   (\<exists>r. snd (tasks_create cfg wyndApi d) = [r] \<and>
        opt_prop (req_data r) ''project_id'' = scoped cfg (get_prop d ''project_id'')) \<and>
   (\<exists>r. snd (documents_create cfg wyndApi d) = [r] \<and>
        opt_prop (req_data r) ''project_id'' = scoped cfg (get_prop d ''project_id''))"
  by (simp add: tasks_list_def documents_list_def tasks_create_def documents_create_def
      opt_prop_def scoped_def js_or_def Let_def spread_def split: option.splits)

text \<open>
  C2, amended, at three calls: no \<^verbatim>\<open>project_id\<close> key, a truthy one, and the empty
  string.
\<close>

theorem default_project_scoping_witness:
  "(\<exists>r. snd (tasks_list cfg0 empty_page None) = [r] \<and>
        opt_prop (req_params r) ''project_id'' = JStr ''proj_1'') \<and>
   (\<exists>r. snd (documents_list cfg0 empty_page (Some [(''project_id'', JStr ''proj_9'')])) = [r] \<and>
        opt_prop (req_params r) ''project_id'' = JStr ''proj_9'') \<and>
   (\<exists>r. snd (tasks_create cfg0 empty_page [(''project_id'', JStr [])]) = [r] \<and>
        opt_prop (req_data r) ''project_id'' = JStr ''proj_1'')"
  using default_project_scoping [of cfg0 empty_page None "[(''project_id'', JStr [])]"]
    default_project_scoping
      [of cfg0 empty_page "Some [(''project_id'', JStr ''proj_9'')]" "[]"]
  by (simp add: scoped_def opt_prop_def cfg0_def)

section \<open>The error policy of the resource handlers\<close>



























section \<open>The read-only project handler\<close>

text \<open>
  C4. Whatever the input and the backend, \<^verbatim>\<open>create\<close>, \<^verbatim>\<open>update\<close> and
  \<^verbatim>\<open>delete\<close> of the project handler throw their fixed ``not supported'' error and
  send no request.
\<close>

theorem projects_read_only:
  "ProjectResource_create wyndApi d =
     (Inl (Error ''Project creation is not supported - projects are read-only''), []) \<and>
   ProjectResource_update wyndApi uri d =
     (Inl (Error ''Project updates are not supported - projects are read-only''), []) \<and>
   ProjectResource_delete wyndApi uri =
     (Inl (Error ''Project deletion is not supported - projects are read-only''), [])"
  by (simp add: ProjectResource_create_def ProjectResource_update_def ProjectResource_delete_def)

section \<open>Errors of the Backend Client\<close>

text \<open>
  C5. When the server answers outside 2xx with a JSON object whose \<^verbatim>\<open>message\<close> field
  is the string \<open>X\<close>, the client call rejects with an \<^verbatim>\<open>ApiError\<close> whose message is
  exactly \<open>X\<close> (carrying the status and the body). When no response was received for
  a request that was made, it rejects with the plain error ``No response received from
  server'', which is never an \<^verbatim>\<open>ApiError\<close>.
\<close>

theorem backend_error_message:
  "(raw r = Inl error \<and> err_response error = Some response \<and>
      resp_data response = JObj body \<and> map_of body ''message'' = Some (JStr X)
      \<longrightarrow> createApiClient raw r = Inl (ApiError X (resp_status response) (JObj body)) \<and>
          error_message (ApiError X (resp_status response) (JObj body)) = X) \<and>
   (raw r = Inl error \<and> err_response error = None \<and> err_request error
      \<longrightarrow> createApiClient raw r = Inl (Error ''No response received from server'') \<and>
          (\<forall>m st d. createApiClient raw r \<noteq> Inl (ApiError m st d)))"
  by (simp add: createApiClient_def response_rejected_def has_key_def get_prop_def)

text \<open>C5 at a 404 with a message and at a timeout.\<close>

theorem backend_error_message_witness:
  "createApiClient raw0 (get_req ''/api/tasks/1'') =
     Inl (ApiError ''Task not found'' 404 (JObj [(''message'', JStr ''Task not found'')])) \<and>
   createApiClient raw0 (get_req ''/api/tasks/2'') =
     Inl (Error ''No response received from server'')"
  using backend_error_message
      [of raw0 "get_req ''/api/tasks/1''" not_found_error
          "\<lparr>resp_status = 404, resp_data = JObj [(''message'', JStr ''Task not found'')]\<rparr>"
          "[(''message'', JStr ''Task not found'')]" "''Task not found''"]
    backend_error_message
      [of raw0 "get_req ''/api/tasks/2''" timeout_error]
  by (simp add: raw0_def get_req_def not_found_error_def timeout_error_def)

section \<open>Required fields of the tools\<close>

lemma required_field_messages:
  "\<not> truthy (get_prop args ''title'') \<Longrightarrow>
     createTask_handler cfg wyndApi args = (failure ''Task title is required'' [], [])"
  "\<not> truthy (get_prop args ''task_id'') \<Longrightarrow>
     updateTask_handler cfg wyndApi args = (failure ''Task ID is required'' [], [])"
  "\<not> truthy (get_prop args ''title'') \<Longrightarrow>
     createDocument_handler cfg wyndApi args = (failure ''Document title is required'' [], [])"
  "\<not> truthy (get_prop args ''title'') \<Longrightarrow>
     createPhase_handler cfg wyndApi args = (failure ''Phase title is required'' [], [])"
  "\<not> truthy (get_prop args ''phase_id'') \<Longrightarrow>
     updatePhase_handler cfg wyndApi args = (failure ''Phase ID is required'' [], [])"
  by (simp_all add: createTask_handler_def updateTask_handler_def createDocument_handler_def
      createPhase_handler_def updatePhase_handler_def)

lemma tool_required_simps:
  "tool_required listTasks = []" "tool_required createTask = [''title'']"
  "tool_required updateTask = [''task_id'']" "tool_required listPhases = []"
  "tool_required createPhase = [''title'']" "tool_required updatePhase = [''phase_id'']"
  "tool_required getProject = []" "tool_required listDocuments = []"
  "tool_required createDocument = [''title'']" "tool_required getContext = []"
  by (simp_all add: listTasks_def createTask_def updateTask_def listPhases_def createPhase_def
      updatePhase_def getProject_def listDocuments_def createDocument_def getContext_def)

lemma tool_handler_simps:
  "tool_handler createTask = createTask_handler" "tool_handler updateTask = updateTask_handler"
  "tool_handler createPhase = createPhase_handler"
  "tool_handler updatePhase = updatePhase_handler"
  "tool_handler createDocument = createDocument_handler"
  by (simp_all add: createTask_def updateTask_def createPhase_def updatePhase_def
      createDocument_def)

lemma tool_name_simps:
  "tool_name createTask = ''create_task''" "tool_name updateTask = ''update_task''"
  "tool_name createPhase = ''create_phase''" "tool_name updatePhase = ''update_phase''"
  "tool_name createDocument = ''create_document''"
  by (simp_all add: createTask_def updateTask_def createPhase_def updatePhase_def
      createDocument_def)

text \<open>
  C6. For every tool of the registry and every field its schema requires, a call whose
  arguments lack that field sends no request and returns exactly
  \<^verbatim>\<open>{success: false, error: "<label> is required"}\<close>, the label being the tool's wording
  for the field. The tools with a required field, the field and the message are:
  \<^verbatim>\<open>create_task\<close>, \<^verbatim>\<open>title\<close>, ``Task title is required'';
  \<^verbatim>\<open>update_task\<close>, \<^verbatim>\<open>task_id\<close>, ``Task ID is required'';
  \<^verbatim>\<open>create_document\<close>, \<^verbatim>\<open>title\<close>, ``Document title is required'';
  \<^verbatim>\<open>create_phase\<close>, \<^verbatim>\<open>title\<close>, ``Phase title is required'';
  \<^verbatim>\<open>update_phase\<close>, \<^verbatim>\<open>phase_id\<close>, ``Phase ID is required''.
\<close>

theorem missing_required_field:
  assumes "t \<in> set tools" and "f \<in> set (tool_required t)" and "\<not> has_key args f"
  shows
    "(tool_name t = ''create_task'' \<and> f = ''title'' \<and>
      tool_handler t cfg wyndApi args =
        (JObj [(''success'', JBool False), (''error'', JStr ''Task title is required'')], [])) \<or>
     (tool_name t = ''update_task'' \<and> f = ''task_id'' \<and>
      tool_handler t cfg wyndApi args =
        (JObj [(''success'', JBool False), (''error'', JStr ''Task ID is required'')], [])) \<or>
     (tool_name t = ''create_document'' \<and> f = ''title'' \<and>
      tool_handler t cfg wyndApi args =
        (JObj [(''success'', JBool False), (''error'', JStr ''Document title is required'')],
         [])) \<or>
     (tool_name t = ''create_phase'' \<and> f = ''title'' \<and>
      tool_handler t cfg wyndApi args =
        (JObj [(''success'', JBool False), (''error'', JStr ''Phase title is required'')], [])) \<or>
     (tool_name t = ''update_phase'' \<and> f = ''phase_id'' \<and>
      tool_handler t cfg wyndApi args =
        (JObj [(''success'', JBool False), (''error'', JStr ''Phase ID is required'')], []))"
proof -
  have undef: "get_prop args f = JUndefined"
    using assms(3) by (rule get_prop_absent)
  have "t = listTasks \<or> t = createTask \<or> t = updateTask \<or> t = listPhases \<or>
        t = createPhase \<or> t = updatePhase \<or> t = getProject \<or> t = listDocuments \<or>
        t = createDocument \<or> t = getContext"
    using assms(1) unfolding tools_def by simp
  then consider "t = createTask" | "t = updateTask" | "t = createDocument" | "t = createPhase"
    | "t = updatePhase" | "tool_required t = []"
    using tool_required_simps by metis
  then show ?thesis
  proof cases
    case 1
    with assms(2) have f: "f = ''title''"
      by (simp add: tool_required_simps)
    with undef have "\<not> truthy (get_prop args ''title'')"
      by simp
    then have "tool_handler t cfg wyndApi args = (failure ''Task title is required'' [], [])"
      unfolding 1 tool_handler_simps by (rule required_field_messages)
    then show ?thesis
      using f by (simp add: 1 tool_name_simps failure_def)
  next
    case 2
    with assms(2) have f: "f = ''task_id''"
      by (simp add: tool_required_simps)
    with undef have "\<not> truthy (get_prop args ''task_id'')"
      by simp
    then have "tool_handler t cfg wyndApi args = (failure ''Task ID is required'' [], [])"
      unfolding 2 tool_handler_simps by (rule required_field_messages)
    then show ?thesis
      using f by (simp add: 2 tool_name_simps failure_def)
  next
    case 3
    with assms(2) have f: "f = ''title''"
      by (simp add: tool_required_simps)
    with undef have "\<not> truthy (get_prop args ''title'')"
      by simp
    then have "tool_handler t cfg wyndApi args = (failure ''Document title is required'' [], [])"
      unfolding 3 tool_handler_simps by (rule required_field_messages)
    then show ?thesis
      using f by (simp add: 3 tool_name_simps failure_def)
  next
    case 4
    with assms(2) have f: "f = ''title''"
      by (simp add: tool_required_simps)
    with undef have "\<not> truthy (get_prop args ''title'')"
      by simp
    then have "tool_handler t cfg wyndApi args = (failure ''Phase title is required'' [], [])"
      unfolding 4 tool_handler_simps by (rule required_field_messages)
    then show ?thesis
      using f by (simp add: 4 tool_name_simps failure_def)
  next
    case 5
    with assms(2) have f: "f = ''phase_id''"
      by (simp add: tool_required_simps)
    with undef have "\<not> truthy (get_prop args ''phase_id'')"
      by simp
    then have "tool_handler t cfg wyndApi args = (failure ''Phase ID is required'' [], [])"
      unfolding 5 tool_handler_simps by (rule required_field_messages)
    then show ?thesis
      using f by (simp add: 5 tool_name_simps failure_def)
  next
    case 6
    with assms(2) show ?thesis by simp
  qed
qed

text \<open>C6 at \<^verbatim>\<open>create\_task\<close> called with a priority and no title.\<close>

theorem missing_required_field_witness:
  "createTask \<in> set tools \<and> ''title'' \<in> set (tool_required createTask) \<and>
   \<not> has_key [(''priority'', JStr ''high'')] ''title'' \<and>
   tool_name createTask = ''create_task'' \<and>
   tool_handler createTask cfg0 empty_page [(''priority'', JStr ''high'')] =
     (JObj [(''success'', JBool False), (''error'', JStr ''Task title is required'')], [])"
proof -
  have a: "createTask \<in> set tools" by (simp add: tools_def)
  have b: "''title'' \<in> set (tool_required createTask)" by (simp add: createTask_def)
  have c: "\<not> has_key [(''priority'', JStr ''high'')] ''title''" by simp
  have n: "tool_name createTask = ''create_task''" by (simp add: createTask_def)
  show ?thesis
    using a b c n missing_required_field [OF a b c, of cfg0 empty_page] by simp
qed

section \<open>The HTTP transport's method check\<close>

text \<open>
  C8. An \<^verbatim>\<open>OPTIONS\<close> request is answered with status 204, no body and the three CORS
  headers, and a request whose method is neither \<^verbatim>\<open>OPTIONS\<close> nor \<^verbatim>\<open>POST\<close> with
  status 405 and the ``Method Not Allowed'' body; in both cases the response is ended
  and no message reaches the message handler.
\<close>

theorem preflight_and_method_check:
  "(in_method req = ''OPTIONS'' \<longrightarrow>
      (case requestHandler rt t conn req of (t', res, invoked) \<Rightarrow>
         statusCode res = 204 \<and> res_body res = [] \<and> res_ended res \<and>
         map_of (res_headers res) ''Access-Control-Allow-Origin'' = Some ''*'' \<and>
         map_of (res_headers res) ''Access-Control-Allow-Methods'' = Some ''GET, POST, OPTIONS'' \<and>
         map_of (res_headers res) ''Access-Control-Allow-Headers'' = Some ''Content-Type'' \<and>
         invoked = [])) \<and>
   (in_method req \<noteq> ''OPTIONS'' \<and> in_method req \<noteq> ''POST'' \<longrightarrow>
      (case requestHandler rt t conn req of (t', res, invoked) \<Rightarrow>
         statusCode res = 405 \<and> res_ended res \<and>
         res_body res = [JSON_stringify rt (JObj [(''error'', JStr ''Method Not Allowed'')])] \<and>
         invoked = []))"
  by (simp add: requestHandler_def Let_def res_end_def writeHead_def setHeader_def
      new_response_def)

text \<open>C8 at an \<^verbatim>\<open>OPTIONS\<close> and at a \<^verbatim>\<open>GET\<close> request.\<close>

theorem preflight_and_method_check_witness:
  "(case requestHandler rt0 transport0 1
           \<lparr>in_method = ''OPTIONS'', in_url = ''/'', in_body = Inr []\<rparr> of
      (t', res, invoked) \<Rightarrow> statusCode res = 204 \<and> res_body res = [] \<and> invoked = []) \<and>
   (case requestHandler rt0 transport0 2
           \<lparr>in_method = ''GET'', in_url = ''/'', in_body = Inr []\<rparr> of
      (t', res, invoked) \<Rightarrow> statusCode res = 405 \<and> invoked = [])"
  using preflight_and_method_check
      [of "\<lparr>in_method = ''OPTIONS'', in_url = ''/'', in_body = Inr []\<rparr>" rt0 transport0 1]
    preflight_and_method_check
      [of "\<lparr>in_method = ''GET'', in_url = ''/'', in_body = Inr []\<rparr>" rt0 transport0 2]
  by (simp split: prod.splits)

section \<open>Reading twice\<close>

lemma read_by_id_agree:
  assumes "\<And>i. g i = g' i"
  shows "read_by_id g uri = read_by_id g' uri"
proof -
  have "g = g'" using assms by (simp add: fun_eq_iff)
  then show ?thesis by simp
qed

lemma get_agree:
  assumes "\<forall>r. req_method r = GET \<longrightarrow> a r = b r"
  shows "tasks_get a i = tasks_get b i" "documents_get a i = documents_get b i"
    "workspaces_get a i = workspaces_get b i" "projects_get a i = projects_get b i"
    "errors_get a i = errors_get b i" "prompts_get a i = prompts_get b i"
    "phases_get a i = phases_get b i"
  using assms
  by (simp_all add: tasks_get_def documents_get_def workspaces_get_def projects_get_def
      errors_get_def prompts_get_def phases_get_def)

lemma ProjectResource_read_agree:
  assumes "\<forall>r. req_method r = GET \<longrightarrow> a r = b r"
  shows "ProjectResource_read depth cfg a uri = ProjectResource_read depth cfg b uri"
proof (induction depth arbitrary: uri)
  case 0
  show ?case by simp
next
  case (Suc depth)
  have "read_by_id (projects_get a) uri = read_by_id (projects_get b) uri"
    by (rule read_by_id_agree) (rule get_agree [OF assms])
  with Suc show ?case by (simp split: option.splits)
qed

lemma ContextResource_read_agree:
  assumes "\<forall>r. req_method r = GET \<longrightarrow> a r = b r"
  shows "ContextResource_read cfg a uri = ContextResource_read cfg b uri"
proof -
  have p: "projects_get a = projects_get b"
    using get_agree(4) [OF assms] by (simp add: fun_eq_iff)
  have w: "workspaces_get a = workspaces_get b"
    using get_agree(3) [OF assms] by (simp add: fun_eq_iff)
  have l: "projects_list a = projects_list b"
    using assms by (simp add: projects_list_def fun_eq_iff)
  have i: "fetch_context_info cfg a = fetch_context_info cfg b"
    unfolding fetch_context_info_def p w by (rule refl)
  have j: "getProjectContext cfg a = getProjectContext cfg b"
    unfolding getProjectContext_def p by (rule refl)
  have c: "getWorkspaceProjectCount a = getWorkspaceProjectCount b"
    unfolding getWorkspaceProjectCount_def l by (rule refl)
  have k: "getWorkspaceContext cfg a = getWorkspaceContext cfg b"
    unfolding getWorkspaceContext_def p w c by (rule refl)
  show ?thesis
    unfolding ContextResource_read_def getContextInfo_def i j k by (rule refl)
qed

lemma resource_read_agree:
  assumes "\<forall>r. req_method r = GET \<longrightarrow> a r = b r"
  shows "resource_read depth cfg h a uri = resource_read depth cfg h b uri"
proof (cases h)
  case ProjectR
  then show ?thesis by (simp add: ProjectResource_read_agree [OF assms])
next
  case ContextR
  then show ?thesis by (simp add: ContextResource_read_agree [OF assms])
qed (simp_all add: TaskResource_read_def DocumentResource_read_def ErrorResource_read_def
      WorkspaceResource_read_def PromptResource_read_def PhaseResource_read_def
      read_by_id_agree [OF get_agree(1) [OF assms]] read_by_id_agree [OF get_agree(2) [OF assms]]
      read_by_id_agree [OF get_agree(3) [OF assms]] read_by_id_agree [OF get_agree(5) [OF assms]]
      read_by_id_agree [OF get_agree(6) [OF assms]] read_by_id_agree [OF get_agree(7) [OF assms]])

lemma read_by_id_only_gets:
  assumes "\<And>i. \<forall>r \<in> set (snd (g i)). req_method r = GET"
  shows "\<forall>r \<in> set (snd (read_by_id g uri)). req_method r = GET"
  using assms [of "last_segment uri"]
  by (auto simp add: read_by_id_def Let_def split: prod.splits sum.splits)

lemma get_only_gets:
  "\<forall>r \<in> set (snd (tasks_get a i)). req_method r = GET"
  "\<forall>r \<in> set (snd (documents_get a i)). req_method r = GET"
  "\<forall>r \<in> set (snd (workspaces_get a i)). req_method r = GET"
  "\<forall>r \<in> set (snd (projects_get a i)). req_method r = GET"
  "\<forall>r \<in> set (snd (errors_get a i)). req_method r = GET"
  "\<forall>r \<in> set (snd (prompts_get a i)). req_method r = GET"
  "\<forall>r \<in> set (snd (phases_get a i)). req_method r = GET"
  by (simp_all add: tasks_get_def documents_get_def workspaces_get_def projects_get_def
      errors_get_def prompts_get_def phases_get_def)

lemma ProjectResource_read_only_gets:
  "\<forall>r \<in> set (snd (ProjectResource_read depth cfg a uri)). req_method r = GET"
proof (induction depth arbitrary: uri)
  case 0
  show ?case by simp
next
  case (Suc depth)
  have "\<forall>r \<in> set (snd (read_by_id (projects_get a) uri)). req_method r = GET"
    by (rule read_by_id_only_gets) (rule get_only_gets)
  with Suc show ?case by (simp split: option.splits)
qed

lemma fetch_context_info_only_gets:
  "\<forall>r \<in> set (snd (fetch_context_info cfg a)). req_method r = GET"
  by (auto simp add: fetch_context_info_def projects_get_def workspaces_get_def
      split: prod.splits sum.splits if_splits)

lemma getWorkspaceContext_only_gets:
  "\<forall>r \<in> set (snd (getWorkspaceContext cfg a)). req_method r = GET"
  by (auto simp add: getWorkspaceContext_def getWorkspaceProjectCount_def projects_get_def
      workspaces_get_def projects_list_def split: prod.splits sum.splits if_splits)

lemma ContextResource_read_only_gets:
  "\<forall>r \<in> set (snd (ContextResource_read cfg a uri)). req_method r = GET"
proof -
  have "\<forall>r \<in> set (snd (getContextInfo cfg a)). req_method r = GET"
    using fetch_context_info_only_gets [of cfg a]
    by (simp add: getContextInfo_def split: prod.splits)
  moreover have "\<forall>r \<in> set (snd (getProjectContext cfg a)). req_method r = GET"
    by (auto simp add: getProjectContext_def projects_get_def
        split: prod.splits sum.splits if_splits)
  ultimately show ?thesis
    using getWorkspaceContext_only_gets [of cfg a]
    by (simp add: ContextResource_read_def Let_def)
qed

lemma resource_read_only_gets:
  "\<forall>r \<in> set (snd (resource_read depth cfg h a uri)). req_method r = GET"
proof (cases h)
  case ProjectR
  then show ?thesis by (simp add: ProjectResource_read_only_gets)
next
  case ContextR
  then show ?thesis by (simp add: ContextResource_read_only_gets)
qed (simp_all add: TaskResource_read_def DocumentResource_read_def ErrorResource_read_def
      WorkspaceResource_read_def PromptResource_read_def PhaseResource_read_def
      read_by_id_only_gets [OF get_only_gets(1)] read_by_id_only_gets [OF get_only_gets(2)]
      read_by_id_only_gets [OF get_only_gets(3)] read_by_id_only_gets [OF get_only_gets(5)]
      read_by_id_only_gets [OF get_only_gets(6)] read_by_id_only_gets [OF get_only_gets(7)])

text \<open>
  C9. Take the backend at the time of the first \<^verbatim>\<open>read(uri)\<close> and at the time of the
  second. If it is unchanged, in that it answers every GET request the same way, then
  the two reads of any handler (the seven entity handlers and the context handler)
  return the same value; and a read
  sends GET requests only, so that it is not the read that changes the backend.
\<close>

theorem read_twice_same_result:
  "((\<forall>r. req_method r = GET \<longrightarrow> wyndApi r = wyndApi' r) \<longrightarrow>
      fst (resource_read depth cfg h wyndApi uri) =
      fst (resource_read depth cfg h wyndApi' uri)) \<and>
   (\<forall>r \<in> set (snd (resource_read depth cfg h wyndApi uri)). req_method r = GET)"
proof (intro conjI impI)
  assume "\<forall>r. req_method r = GET \<longrightarrow> wyndApi r = wyndApi' r"
  then have "resource_read depth cfg h wyndApi uri = resource_read depth cfg h wyndApi' uri"
    by (rule resource_read_agree)
  then show "fst (resource_read depth cfg h wyndApi uri) =
      fst (resource_read depth cfg h wyndApi' uri)"
    by simp
next
  show "\<forall>r \<in> set (snd (resource_read depth cfg h wyndApi uri)). req_method r = GET"
    by (rule resource_read_only_gets)
qed

text \<open>
  C9 at two backends that answer GET requests alike and differ on writes: error 7 reads
  the same from both, and the default project reads as \<^verbatim>\<open>null\<close> from both.
\<close>

theorem read_twice_same_result_witness:
  "one_error \<noteq> one_error_later \<and>
   fst (resource_read 8 cfg0 ErrorR one_error ''wynd://errors/7'') =
   fst (resource_read 8 cfg0 ErrorR one_error_later ''wynd://errors/7'') \<and>
   fst (resource_read 8 cfg0 ProjectR one_error ''wynd://projects/default'') =
   fst (resource_read 8 cfg0 ProjectR one_error_later ''wynd://projects/default'')"
proof -
  have agree: "\<forall>r. req_method r = GET \<longrightarrow> one_error r = one_error_later r"
    by (simp add: one_error_def one_error_later_def)
  have "one_error (get_req ''/api/errors/7'' \<lparr>req_method := PUT\<rparr>) \<noteq>
        one_error_later (get_req ''/api/errors/7'' \<lparr>req_method := PUT\<rparr>)"
    by (simp add: one_error_def one_error_later_def get_req_def)
  then have differ: "one_error \<noteq> one_error_later"
    by metis
  show ?thesis
    using agree differ
      read_twice_same_result [of one_error one_error_later 8 cfg0 ErrorR "''wynd://errors/7''"]
      read_twice_same_result
        [of one_error one_error_later 8 cfg0 ProjectR "''wynd://projects/default''"]
    by blast
qed

section \<open>The payload of create\_task\<close>

text \<open>
  C10. Whenever \<^verbatim>\<open>create_task\<close> is called with a truthy title it sends exactly one
  request, a POST to \<^verbatim>\<open>/api/tasks\<close>, whose payload has \<^verbatim>\<open>project_id\<close> equal to the
  configured default project id and \<^verbatim>\<open>created_by\<close> equal to \<^verbatim>\<open>"mcp-client"\<close>, whatever
  else the arguments hold; without a truthy title it sends nothing. The tool's input
  schema has no \<^verbatim>\<open>project_id\<close> property.
\<close>

theorem createTask_payload:
  "(truthy (get_prop args ''title'') \<longrightarrow>
      (\<exists>r. snd (tool_handler createTask cfg wyndApi args) = [r] \<and>
           req_method r = POST \<and> req_url r = ''/api/tasks'' \<and>
           opt_prop (req_data r) ''project_id'' = JStr (defaultProjectId cfg) \<and>
           opt_prop (req_data r) ''created_by'' = JStr ''mcp-client'')) \<and>
   (\<not> truthy (get_prop args ''title'') \<longrightarrow>
      snd (tool_handler createTask cfg wyndApi args) = []) \<and>
   ''project_id'' \<notin> set (tool_properties createTask)"
  by (simp add: createTask_handler_def tasks_create_def createTask_def Let_def opt_prop_def
      split: prod.splits sum.splits)

text \<open>C10 at a call that tries to name another project and another author.\<close>

theorem createTask_payload_witness:
  "truthy (get_prop [(''title'', JStr ''Write docs''), (''project_id'', JStr ''proj_9''),
                     (''created_by'', JStr ''me'')] ''title'') \<and>
   (\<exists>r. snd (tool_handler createTask cfg0 empty_page
               [(''title'', JStr ''Write docs''), (''project_id'', JStr ''proj_9''),
                (''created_by'', JStr ''me'')]) = [r] \<and>
        opt_prop (req_data r) ''project_id'' = JStr ''proj_1'' \<and>
        opt_prop (req_data r) ''created_by'' = JStr ''mcp-client'')"
proof -
  have t: "truthy (get_prop [(''title'', JStr ''Write docs''), (''project_id'', JStr ''proj_9''),
                     (''created_by'', JStr ''me'')] ''title'')"
    by simp
  have d: "defaultProjectId cfg0 = ''proj_1''"
    by (simp add: cfg0_def)
  show ?thesis
    using t d createTask_payload
      [of "[(''title'', JStr ''Write docs''), (''project_id'', JStr ''proj_9''),
            (''created_by'', JStr ''me'')]" cfg0 empty_page]
    by auto
qed

end
